theory Spec2Isabelle
  imports Main
begin

section \<open>Daily activities automation (\<^verbatim>\<open>bing_rewards/daily_activities.py\<close>)\<close>

text \<open>
  The module drives a browser page through Playwright. The browser, the operating system
  and the random number generator are outside the repository, so they are a parameter of
  the model: a \<open>driver\<close>, a record of functions over an abstract world \<open>'w\<close> with
  element handles \<open>'e\<close>. Every \<^verbatim>\<open>await\<close> that can raise returns the exception as a value.

  \<open>exn\<close> stands for the instances of Python's \<^verbatim>\<open>Exception\<close>, which is what every
  \<^verbatim>\<open>except Exception\<close> of the module catches. Signals that derive from
  \<^verbatim>\<open>BaseException\<close> only (keyboard interrupt, task cancellation) are not modelled.
\<close>

datatype exn = TimeoutError | PlaywrightError string | OSError string | EOFError

text \<open>
  What a page shows at one instant: the elements every CSS selector matches, in document
  order, and the serialised markup (\<^verbatim>\<open>page.content()\<close>).
\<close>

record 'e page =
  matches :: "string \<Rightarrow> 'e list"
  content :: string

record browser_info =
  name :: string
  executable :: string
  profiles :: "(string \<times> string) list"

text \<open>
  The driver. Reads do not change the world; actions (clicks, navigation, waits, sleeps)
  return the next world, so the page may differ after each of them.
  \<^item> \<open>page_view\<close>: the page as it is now, or the exception that any page-level access
    (\<^verbatim>\<open>query_selector\<close>, \<^verbatim>\<open>query_selector_all\<close>, \<^verbatim>\<open>content\<close>) raises now
    (page closed, crashed, execution context destroyed). The selectors of the module are
    fixed and well-formed, so whether such a call raises depends on the page only.
  \<^item> \<open>el_query\<close>, \<open>inner_text\<close>, \<open>get_attribute\<close>: reads through an element handle,
    each of which may raise on its own (detached element).
  \<^item> \<open>sleep lo hi\<close>: \<^verbatim>\<open>asyncio.sleep(random.uniform(lo, hi))\<close>, bounds in tenths of
    a second.
  \<^item> \<open>random_index w n\<close>: the random generator's draw for a sequence of length \<open>n\<close>.
  \<^item> \<open>joinpath a b\<close>: \<^verbatim>\<open>str(Path(a) / b)\<close>, the join of \<^verbatim>\<open>pathlib\<close> for the path flavour
    of the platform (separator, drive, the handling of an empty or a root path);
    \<open>home_dir\<close> is \<^verbatim>\<open>str(Path.home())\<close>.
\<close>

record ('w, 'e) driver =
  page_view :: "'w \<Rightarrow> exn + 'e page"
  el_query :: "'w \<Rightarrow> 'e \<Rightarrow> string \<Rightarrow> exn + 'e option"
  inner_text :: "'w \<Rightarrow> 'e \<Rightarrow> exn + string"
  get_attribute :: "'w \<Rightarrow> 'e \<Rightarrow> string \<Rightarrow> exn + string option"
  random_index :: "'w \<Rightarrow> nat \<Rightarrow> nat"
  el_click :: "'e \<Rightarrow> 'w \<Rightarrow> exn option \<times> 'w"
  goto :: "string \<Rightarrow> nat \<Rightarrow> 'w \<Rightarrow> exn option \<times> 'w"
  wait_for_load_state :: "nat \<Rightarrow> 'w \<Rightarrow> exn option \<times> 'w"
  evaluate :: "string \<Rightarrow> 'w \<Rightarrow> exn option \<times> 'w"
  sleep :: "nat \<Rightarrow> nat \<Rightarrow> 'w \<Rightarrow> 'w"
  scan_system :: "'w \<Rightarrow> exn + (string \<times> browser_info) list"
  getenv :: "'w \<Rightarrow> string \<Rightarrow> string option"
  home_dir :: "'w \<Rightarrow> string"
  joinpath :: "string \<Rightarrow> string \<Rightarrow> string"
  dir_exists :: "'w \<Rightarrow> string \<Rightarrow> exn + bool"
  iterdir :: "'w \<Rightarrow> string \<Rightarrow> exn + string list"
  mkdir :: "string \<Rightarrow> 'w \<Rightarrow> exn option \<times> 'w"
  start_playwright :: "'w \<Rightarrow> exn option \<times> 'w"
  stop_playwright :: "'w \<Rightarrow> 'w"
  launch_persistent_context :: "string \<Rightarrow> string \<Rightarrow> bool \<Rightarrow> 'w \<Rightarrow> exn option \<times> 'w"
  new_page :: "'w \<Rightarrow> exn option \<times> 'w"
  context_close :: "'w \<Rightarrow> exn option \<times> 'w"
  wait_for_enter :: "'w \<Rightarrow> exn option \<times> 'w"

text \<open>
  The actions a run performs are recorded, in order, next to the world: the trace is what
  an observer of the browser and the file system sees. Console output is not recorded.
\<close>

datatype 'e action =
    Goto string
  | Click 'e
  | Sleep nat nat
  | WaitLoad nat
  | Evaluate string
  | Mkdir string
  | StartPlaywright
  | StopPlaywright
  | Launch string string bool
  | NewPage
  | CloseContext
  | WaitEnter

record ('w, 'e) state =
  world :: 'w
  trace :: "'e action list"

definition perform :: "('w \<Rightarrow> exn option \<times> 'w) \<Rightarrow> 'e action \<Rightarrow> ('w, 'e) state \<Rightarrow> exn option \<times> ('w, 'e) state" where
  "perform f a s = (case f (world s) of (r, w') \<Rightarrow> (r, \<lparr>world = w', trace = trace s @ [a]\<rparr>))"

definition random_delay :: "('w, 'e) driver \<Rightarrow> nat \<Rightarrow> nat \<Rightarrow> ('w, 'e) state \<Rightarrow> ('w, 'e) state" where
  "random_delay drv min_s max_s s =
     \<lparr>world = sleep drv min_s max_s (world s), trace = trace s @ [Sleep min_s max_s]\<rparr>"

definition page_goto :: "('w, 'e) driver \<Rightarrow> string \<Rightarrow> nat \<Rightarrow> ('w, 'e) state \<Rightarrow> exn option \<times> ('w, 'e) state" where
  "page_goto drv url timeout s = perform (goto drv url timeout) (Goto url) s"

definition click :: "('w, 'e) driver \<Rightarrow> 'e \<Rightarrow> ('w, 'e) state \<Rightarrow> exn option \<times> ('w, 'e) state" where
  "click drv el s = perform (el_click drv el) (Click el) s"

definition page_evaluate :: "('w, 'e) driver \<Rightarrow> string \<Rightarrow> ('w, 'e) state \<Rightarrow> exn option \<times> ('w, 'e) state" where
  "page_evaluate drv js s = perform (evaluate drv js) (Evaluate js) s"

definition query_selector_all :: "('w, 'e) driver \<Rightarrow> ('w, 'e) state \<Rightarrow> string \<Rightarrow> exn + 'e list" where
  "query_selector_all drv s sel =
     (case page_view drv (world s) of Inl e \<Rightarrow> Inl e | Inr p \<Rightarrow> Inr (matches p sel))"

definition query_selector :: "('w, 'e) driver \<Rightarrow> ('w, 'e) state \<Rightarrow> string \<Rightarrow> exn + 'e option" where
  "query_selector drv s sel =
     (case page_view drv (world s) of
        Inl e \<Rightarrow> Inl e
      | Inr p \<Rightarrow> Inr (case matches p sel of [] \<Rightarrow> None | el # _ \<Rightarrow> Some el))"

definition page_content :: "('w, 'e) driver \<Rightarrow> ('w, 'e) state \<Rightarrow> exn + string" where
  "page_content drv s =
     (case page_view drv (world s) of Inl e \<Rightarrow> Inl e | Inr p \<Rightarrow> Inr (content p))"

text \<open>\<^verbatim>\<open>random.choice(options)\<close>, called on non-empty lists only.\<close>

definition random_choice :: "('w, 'e) driver \<Rightarrow> ('w, 'e) state \<Rightarrow> 'e list \<Rightarrow> 'e" where
  "random_choice drv s options =
     options ! (random_index drv (world s) (length options) mod length options)"

text \<open>\<^verbatim>\<open>_wait_for_page_load\<close>: a failed wait is replaced by a longer delay.\<close>

definition wait_for_page_load :: "('w, 'e) driver \<Rightarrow> nat \<Rightarrow> ('w, 'e) state \<Rightarrow> ('w, 'e) state" where
  "wait_for_page_load drv timeout s =
     (case perform (wait_for_load_state drv timeout) (WaitLoad timeout) s of
        (None, s1) \<Rightarrow> random_delay drv 10 20 s1
      | (Some e, s1) \<Rightarrow> random_delay drv 20 30 s1)"

subsection \<open>Activity type detection\<close>

definition quiz_selectors :: "string list" where
  "quiz_selectors =
     [''#rqQuestionState'', ''[class*='rqQuestion']'', ''[id*='rqAnswerOption']'',
      ''.wk_choicesInst498'', ''#quizCompleteContainer'', ''[class*='QuizQuestion']'']"

definition poll_selectors :: "string list" where
  "poll_selectors =
     [''#btPollOverlay'', ''[class*='pollOption']'', ''[class*='PollOption']'',
      ''[class*='bt_poll']'', ''[id*='btoption']'']"

definition trivia_selectors :: "string list" where
  "trivia_selectors =
     [''.wk_Circle'', ''[class*='TriviaOption']'', ''#rqAnswerOption0'',
      ''[class*='trivia']'', ''[class*='thisOrThat']'', ''[class*='btOptionCard']'']"

definition lightspeed_selectors :: "string list" where
  "lightspeed_selectors = [''[class*='lightspeed']'', ''#rqStartQuiz'', ''[id*='StartQuiz']'']"

text \<open>
  One \<^verbatim>\<open>for sel in ...: if await page.query_selector(sel): return ...\<close> loop:
  \<open>Inr True\<close> when some selector matched, \<open>Inl e\<close> when a query raised before that.
\<close>

fun any_selector :: "('w, 'e) driver \<Rightarrow> ('w, 'e) state \<Rightarrow> string list \<Rightarrow> exn + bool" where
  "any_selector drv s [] = Inr False"
| "any_selector drv s (sel # sels) =
     (case query_selector drv s sel of
        Inl e \<Rightarrow> Inl e
      | Inr (Some el) \<Rightarrow> Inr True
      | Inr None \<Rightarrow> any_selector drv s sels)"

definition detect_activity_type :: "('w, 'e) driver \<Rightarrow> ('w, 'e) state \<Rightarrow> (exn + string) \<times> ('w, 'e) state" where
  "detect_activity_type drv s =
     (let s1 = wait_for_page_load drv 10000 s;
          s2 = random_delay drv 15 30 s1
      in case any_selector drv s2 quiz_selectors of
           Inl e \<Rightarrow> (Inl e, s2)
         | Inr True \<Rightarrow> (Inr ''quiz'', s2)
         | Inr False \<Rightarrow>
        (case any_selector drv s2 poll_selectors of
           Inl e \<Rightarrow> (Inl e, s2)
         | Inr True \<Rightarrow> (Inr ''poll'', s2)
         | Inr False \<Rightarrow>
        (case any_selector drv s2 trivia_selectors of
           Inl e \<Rightarrow> (Inl e, s2)
         | Inr True \<Rightarrow> (Inr ''trivia'', s2)
         | Inr False \<Rightarrow>
        (case any_selector drv s2 lightspeed_selectors of
           Inl e \<Rightarrow> (Inl e, s2)
         | Inr True \<Rightarrow> (Inr ''quiz'', s2)
         | Inr False \<Rightarrow> (Inr ''click_only'', s2)))))"

subsection \<open>Activity handlers\<close>

text \<open>
  Each handler is a \<^verbatim>\<open>try\<close> body, which may raise, under an
  \<^verbatim>\<open>except Exception: return False\<close>. The body is a function of its own so that
  what escapes it can be stated.
\<close>

definition quiz_start_selector :: string where
  "quiz_start_selector = ''#rqStartQuiz, [id*='StartQuiz'], [class*='start']''"

definition quiz_option_selector :: string where
  "quiz_option_selector =
     ''[id*='rqAnswerOption'], .wk_choicesInstOptionContainer, [class*='AnswerOption'], [class*='answerOption']''"

definition quiz_generic_selector :: string where
  "quiz_generic_selector = ''.option-card, [class*='option'], [role='button']''"

definition quiz_complete_selector :: string where
  "quiz_complete_selector =
     ''#quizCompleteContainer, [class*='quizComplete'], [class*='QuizComplete'], [class*='congratulations']''"

text \<open>
  The options one iteration of the quiz loop works with: the answer-option query and,
  when it is empty, the generic one.
\<close>

definition quiz_options :: "('w, 'e) driver \<Rightarrow> ('w, 'e) state \<Rightarrow> exn + 'e list" where
  "quiz_options drv s =
     (case query_selector_all drv s quiz_option_selector of
        Inl e \<Rightarrow> Inl e
      | Inr options \<Rightarrow>
          if options = [] then query_selector_all drv s quiz_generic_selector else Inr options)"

text \<open>
  \<^verbatim>\<open>for q in range(20)\<close>, from iteration \<open>q\<close> on: the value is what the rest of the
  \<^verbatim>\<open>try\<close> body returns or raises. The click sits in its own
  \<^verbatim>\<open>try ... except Exception: pass\<close>, so only its state is kept.
\<close>

function quiz_loop :: "('w, 'e) driver \<Rightarrow> nat \<Rightarrow> ('w, 'e) state \<Rightarrow> (exn + bool) \<times> ('w, 'e) state" where
  "quiz_loop drv q s =
     (if q < 20 then
        (case quiz_options drv s of
           Inl e \<Rightarrow> (Inl e, s)
         | Inr options \<Rightarrow>
             if options = [] then (Inr True, s)
             else
               let choice = random_choice drv s options;
                   s1 = snd (click drv choice s);
                   s2 = random_delay drv 15 30 s1
               in (case query_selector drv s2 quiz_complete_selector of
                     Inl e \<Rightarrow> (Inl e, s2)
                   | Inr (Some el) \<Rightarrow> (Inr True, s2)
                   | Inr None \<Rightarrow> quiz_loop drv (Suc q) s2))
      else (Inr True, s))"
  by pat_completeness auto
termination
  by (relation "measure (\<lambda>(drv, q, s). 20 - q)") auto

definition handle_quiz_body :: "('w, 'e) driver \<Rightarrow> ('w, 'e) state \<Rightarrow> (exn + bool) \<times> ('w, 'e) state" where
  "handle_quiz_body drv s =
     (case query_selector drv s quiz_start_selector of
        Inl e \<Rightarrow> (Inl e, s)
      | Inr None \<Rightarrow> quiz_loop drv 0 s
      | Inr (Some start_btn) \<Rightarrow>
          (case click drv start_btn s of
             (Some e, s1) \<Rightarrow> (Inl e, s1)
           | (None, s1) \<Rightarrow> quiz_loop drv 0 (random_delay drv 20 30 s1)))"

definition catch_false :: "(exn + bool) \<times> 's \<Rightarrow> bool \<times> 's" where
  "catch_false r = (case r of (Inl e, s) \<Rightarrow> (False, s) | (Inr b, s) \<Rightarrow> (b, s))"

definition handle_quiz :: "('w, 'e) driver \<Rightarrow> ('w, 'e) state \<Rightarrow> bool \<times> ('w, 'e) state" where
  "handle_quiz drv s = catch_false (handle_quiz_body drv s)"

definition poll_option_selector :: string where
  "poll_option_selector =
     ''#btoption0, #btoption1, [id*='btoption'], [class*='pollOption'], [class*='PollOption'], [class*='bt_poll'] [role='button']''"

definition poll_broad_selector :: string where
  "poll_broad_selector = ''[class*='option-card'], [class*='btOption']''"

definition poll_options :: "('w, 'e) driver \<Rightarrow> ('w, 'e) state \<Rightarrow> exn + 'e list" where
  "poll_options drv s =
     (case query_selector_all drv s poll_option_selector of
        Inl e \<Rightarrow> Inl e
      | Inr options \<Rightarrow>
          if options = [] then query_selector_all drv s poll_broad_selector else Inr options)"

text \<open>The poll handler clicks once, outside any inner \<^verbatim>\<open>try\<close>.\<close>

definition handle_poll_body :: "('w, 'e) driver \<Rightarrow> ('w, 'e) state \<Rightarrow> (exn + bool) \<times> ('w, 'e) state" where
  "handle_poll_body drv s =
     (case poll_options drv s of
        Inl e \<Rightarrow> (Inl e, s)
      | Inr options \<Rightarrow>
          if options \<noteq> [] then
            (case click drv (random_choice drv s options) s of
               (Some e, s1) \<Rightarrow> (Inl e, s1)
             | (None, s1) \<Rightarrow> (Inr True, random_delay drv 20 30 s1))
          else (Inr False, s))"

definition handle_poll :: "('w, 'e) driver \<Rightarrow> ('w, 'e) state \<Rightarrow> bool \<times> ('w, 'e) state" where
  "handle_poll drv s = catch_false (handle_poll_body drv s)"

definition trivia_option_selector :: string where
  "trivia_option_selector =
     ''#rqAnswerOption0, #rqAnswerOption1, [id*='rqAnswerOption'], .wk_Circle, [class*='btOptionCard'], [class*='TriviaOption'], [class*='option-card']''"

definition trivia_complete_selector :: string where
  "trivia_complete_selector =
     ''[class*='complete'], [class*='Complete'], [class*='congratulations'], #quizCompleteContainer''"

text \<open>\<^verbatim>\<open>for q in range(15)\<close>, from iteration \<open>q\<close> on.\<close>

function trivia_loop :: "('w, 'e) driver \<Rightarrow> nat \<Rightarrow> ('w, 'e) state \<Rightarrow> (exn + bool) \<times> ('w, 'e) state" where
  "trivia_loop drv q s =
     (if q < 15 then
        (case query_selector_all drv s trivia_option_selector of
           Inl e \<Rightarrow> (Inl e, s)
         | Inr options \<Rightarrow>
             if options = [] then (Inr True, s)
             else
               let choice = random_choice drv s options;
                   s1 = snd (click drv choice s);
                   s2 = random_delay drv 15 30 s1
               in (case query_selector drv s2 trivia_complete_selector of
                     Inl e \<Rightarrow> (Inl e, s2)
                   | Inr (Some el) \<Rightarrow> (Inr True, s2)
                   | Inr None \<Rightarrow> trivia_loop drv (Suc q) s2))
      else (Inr True, s))"
  by pat_completeness auto
termination
  by (relation "measure (\<lambda>(drv, q, s). 15 - q)") auto

definition handle_trivia_body :: "('w, 'e) driver \<Rightarrow> ('w, 'e) state \<Rightarrow> (exn + bool) \<times> ('w, 'e) state" where
  "handle_trivia_body drv s = trivia_loop drv 0 s"

definition handle_trivia :: "('w, 'e) driver \<Rightarrow> ('w, 'e) state \<Rightarrow> bool \<times> ('w, 'e) state" where
  "handle_trivia drv s = catch_false (handle_trivia_body drv s)"

definition handle_click_only_body :: "('w, 'e) driver \<Rightarrow> ('w, 'e) state \<Rightarrow> (exn + bool) \<times> ('w, 'e) state" where
  "handle_click_only_body drv s =
     (let s1 = wait_for_page_load drv 10000 s;
          s2 = random_delay drv 30 50 s1
      in case page_evaluate drv ''window.scrollBy(0, 300)'' s2 of
           (Some e, s3) \<Rightarrow> (Inl e, s3)
         | (None, s3) \<Rightarrow> (Inr True, random_delay drv 10 20 s3))"

definition handle_click_only :: "('w, 'e) driver \<Rightarrow> ('w, 'e) state \<Rightarrow> bool \<times> ('w, 'e) state" where
  "handle_click_only drv s = catch_false (handle_click_only_body drv s)"

subsection \<open>Completing one activity\<close>

record Activity =
  title :: string
  points :: string
  url :: string
  completed :: bool

fun startswith :: "string \<Rightarrow> string \<Rightarrow> bool" where
  "startswith s [] = True"
| "startswith [] (p # ps) = False"
| "startswith (c # cs) (p # ps) = (c = p \<and> startswith cs ps)"

definition full_url :: "Activity \<Rightarrow> string" where
  "full_url activity =
     (if startswith (url activity) ''http'' then url activity
      else ''https://rewards.bing.com'' @ url activity)"

text \<open>
  The dispatch table of \<^verbatim>\<open>complete_activity\<close>, once with the handlers and once with
  their bodies; \<^verbatim>\<open>handlers.get(activity_type, handle_click_only)\<close>.
\<close>

definition handler_bodies ::
  "('w, 'e) driver \<Rightarrow> (string \<times> (('w, 'e) state \<Rightarrow> (exn + bool) \<times> ('w, 'e) state)) list" where
  "handler_bodies drv =
     [(''quiz'', handle_quiz_body drv), (''poll'', handle_poll_body drv),
      (''trivia'', handle_trivia_body drv), (''click_only'', handle_click_only_body drv)]"

definition handlers ::
  "('w, 'e) driver \<Rightarrow> (string \<times> (('w, 'e) state \<Rightarrow> bool \<times> ('w, 'e) state)) list" where
  "handlers drv =
     [(''quiz'', handle_quiz drv), (''poll'', handle_poll drv),
      (''trivia'', handle_trivia drv), (''click_only'', handle_click_only drv)]"

definition get_handler :: "('w, 'e) driver \<Rightarrow> string \<Rightarrow> ('w, 'e) state \<Rightarrow> bool \<times> ('w, 'e) state" where
  "get_handler drv activity_type =
     (case map_of (handlers drv) activity_type of Some h \<Rightarrow> h | None \<Rightarrow> handle_click_only drv)"

definition get_handler_body ::
  "('w, 'e) driver \<Rightarrow> string \<Rightarrow> ('w, 'e) state \<Rightarrow> (exn + bool) \<times> ('w, 'e) state" where
  "get_handler_body drv activity_type =
     (case map_of (handler_bodies drv) activity_type of
        Some h \<Rightarrow> h
      | None \<Rightarrow> handle_click_only_body drv)"

text \<open>Navigation and classification, the part of the body before the handler runs.\<close>

definition open_and_classify ::
  "('w, 'e) driver \<Rightarrow> Activity \<Rightarrow> ('w, 'e) state \<Rightarrow> (exn + string) \<times> ('w, 'e) state" where
  "open_and_classify drv activity s =
     (case page_goto drv (full_url activity) 30000 s of
        (Some e, s1) \<Rightarrow> (Inl e, s1)
      | (None, s1) \<Rightarrow> detect_activity_type drv (random_delay drv 20 40 s1))"

definition complete_activity_body ::
  "('w, 'e) driver \<Rightarrow> Activity \<Rightarrow> ('w, 'e) state \<Rightarrow> (exn + bool) \<times> ('w, 'e) state" where
  "complete_activity_body drv activity s =
     (case open_and_classify drv activity s of
        (Inl e, s1) \<Rightarrow> (Inl e, s1)
      | (Inr activity_type, s1) \<Rightarrow>
          (case get_handler drv activity_type s1 of (success, s2) \<Rightarrow> (Inr success, s2)))"

definition complete_activity ::
  "('w, 'e) driver \<Rightarrow> Activity \<Rightarrow> ('w, 'e) state \<Rightarrow> bool \<times> ('w, 'e) state" where
  "complete_activity drv activity s = catch_false (complete_activity_body drv activity s)"

subsection \<open>Strings\<close>

text \<open>
  A Python string is a list of code points; the model has the code points below 256, one
  \<open>char\<close> each, and \<open>length\<close> is \<^verbatim>\<open>len\<close>. The predicates follow
  \<^verbatim>\<open>str.isspace\<close>, \<^verbatim>\<open>str.isdigit\<close> and \<^verbatim>\<open>str.lower\<close> on that range.
\<close>

definition isspace :: "char \<Rightarrow> bool" where
  "isspace c = (let n = (of_char c :: nat) in (9 \<le> n \<and> n \<le> 13) \<or> (28 \<le> n \<and> n \<le> 32) \<or> n = 133 \<or> n = 160)"

definition strip :: "string \<Rightarrow> string" where
  "strip s = rev (dropWhile isspace (rev (dropWhile isspace s)))"

definition lower_char :: "char \<Rightarrow> char" where
  "lower_char c =
     (let n = (of_char c :: nat)
      in if (65 \<le> n \<and> n \<le> 90) \<or> (192 \<le> n \<and> n \<le> 222 \<and> n \<noteq> 215) then char_of (n + 32) else c)"

definition lower :: "string \<Rightarrow> string" where
  "lower s = map lower_char s"

definition isdigit_char :: "char \<Rightarrow> bool" where
  "isdigit_char c = (let n = (of_char c :: nat) in (48 \<le> n \<and> n \<le> 57) \<or> n = 178 \<or> n = 179 \<or> n = 185)"

definition isdigit :: "string \<Rightarrow> bool" where
  "isdigit s = (s \<noteq> [] \<and> list_all isdigit_char s)"

text \<open>\<^verbatim>\<open>sub in s\<close>.\<close>

fun contains :: "string \<Rightarrow> string \<Rightarrow> bool" where
  "contains [] sub = (sub = [])"
| "contains (c # cs) sub = (startswith (c # cs) sub \<or> contains cs sub)"

text \<open>\<^verbatim>\<open>s.split()\<close>: the maximal runs of non-whitespace, \<open>cur\<close> being the run read so far.\<close>

fun split_from :: "string \<Rightarrow> string \<Rightarrow> string list" where
  "split_from cur [] = (if cur = [] then [] else [cur])"
| "split_from cur (c # cs) =
     (if isspace c then (if cur = [] then split_from [] cs else cur # split_from [] cs)
      else split_from (cur @ [c]) cs)"

definition split :: "string \<Rightarrow> string list" where
  "split s = split_from [] s"

subsection \<open>Activity detection\<close>

definition and_then :: "exn + 'a \<Rightarrow> ('a \<Rightarrow> exn + 'b) \<Rightarrow> exn + 'b" where
  "and_then m f = (case m of Inl e \<Rightarrow> Inl e | Inr x \<Rightarrow> f x)"

definition card_title_selector :: string where
  "card_title_selector = ''[class*='title'], [class*='Title'], h3, h4, [aria-label]''"

definition card_points_selector :: string where
  "card_points_selector = ''[class*='point'], [class*='Point'], [class*='badge'], [class*='Badge']''"

definition card_check_selector :: string where
  "card_check_selector =
     ''[class*='complete'], [class*='Complete'], [class*='check'], [class*='Check'], [aria-label*='completed'], [aria-label*='Completed']''"

definition stripped_text :: "('w, 'e) driver \<Rightarrow> ('w, 'e) state \<Rightarrow> 'e \<Rightarrow> exn + string" where
  "stripped_text drv s el = and_then (inner_text drv (world s) el) (\<lambda>txt. Inr (strip txt))"

definition href_or_empty :: "('w, 'e) driver \<Rightarrow> ('w, 'e) state \<Rightarrow> 'e \<Rightarrow> exn + string" where
  "href_or_empty drv s el =
     and_then (get_attribute drv (world s) el ''href'')
       (\<lambda>h. Inr (case h of None \<Rightarrow> [] | Some u \<Rightarrow> u))"

text \<open>
  The \<^verbatim>\<open>try\<close> body of the card loop of \<^verbatim>\<open>detect_activities\<close>: \<open>Inr (Some a)\<close> when
  the card is appended, \<open>Inr None\<close> when it is passed over, \<open>Inl e\<close> when an element read
  raised.
\<close>

definition parse_card :: "('w, 'e) driver \<Rightarrow> ('w, 'e) state \<Rightarrow> 'e \<Rightarrow> exn + Activity option" where
  "parse_card drv s card_el =
     and_then (el_query drv (world s) card_el card_title_selector) (\<lambda>title_el.
     and_then (case title_el of None \<Rightarrow> Inr [] | Some t \<Rightarrow> stripped_text drv s t) (\<lambda>title0.
     and_then (if title0 = [] then and_then (stripped_text drv s card_el) (\<lambda>txt. Inr (take 80 txt))
               else Inr title0) (\<lambda>ttl.
     if ttl = [] \<or> length ttl < 3 then Inr None
     else
     and_then (el_query drv (world s) card_el card_points_selector) (\<lambda>points_el.
     and_then (case points_el of None \<Rightarrow> Inr [] | Some p \<Rightarrow> stripped_text drv s p) (\<lambda>pts.
     and_then (el_query drv (world s) card_el ''a[href]'') (\<lambda>link_el.
     and_then (href_or_empty drv s (case link_el of Some l \<Rightarrow> l | None \<Rightarrow> card_el)) (\<lambda>href.
     and_then (el_query drv (world s) card_el card_check_selector) (\<lambda>check_el.
     let is_done = (check_el \<noteq> None)
     in if href \<noteq> [] \<and> \<not> is_done
        then Inr (Some \<lparr>title = ttl, points = pts, url = href, completed = is_done\<rparr>)
        else Inr None))))))))"

text \<open>
  \<^verbatim>\<open>for x in xs: try: ... except Exception: continue\<close>, for a body \<open>parse\<close>: the
  activities appended, in order.
\<close>

fun collect :: "('e \<Rightarrow> exn + Activity option) \<Rightarrow> 'e list \<Rightarrow> Activity list" where
  "collect parse [] = []"
| "collect parse (x # xs) =
     (case parse x of
        Inr (Some a) \<Rightarrow> a # collect parse xs
      | Inr None \<Rightarrow> collect parse xs
      | Inl e \<Rightarrow> collect parse xs)"

definition detect_activities ::
  "('w, 'e) driver \<Rightarrow> ('w, 'e) state \<Rightarrow> (exn + Activity list) \<times> ('w, 'e) state" where
  "detect_activities drv s =
     (let s1 = wait_for_page_load drv 10000 s;
          s2 = random_delay drv 20 40 s1
      in case query_selector_all drv s2 ''mee-card'' of
           Inl e \<Rightarrow> (Inl e, s2)
         | Inr cards1 \<Rightarrow>
        (case (if cards1 = [] then query_selector_all drv s2 ''[class*='card'], [class*='Card']''
               else Inr cards1) of
           Inl e \<Rightarrow> (Inl e, s2)
         | Inr cards2 \<Rightarrow>
        (case (if cards2 = []
               then query_selector_all drv s2 ''a[href*='daily'], a[href*='quiz'], a[href*='poll']''
               else Inr cards2) of
           Inl e \<Rightarrow> (Inl e, s2)
         | Inr cards \<Rightarrow> (Inr (collect (parse_card drv s2) cards), s2))))"

definition reward_indicators :: "string list" where
  "reward_indicators =
     [''quiz'', ''poll'', ''trivia'', ''puzzle'', ''+5'', ''+10'', ''+15'', ''+20'', ''+30'', ''+50'',
      ''daily'', ''challenge'']"

definition extract_points :: "string \<Rightarrow> string" where
  "extract_points txt =
     (case find (\<lambda>word. startswith word ''+'' \<and> isdigit (drop 1 word)) (split txt) of
        Some word \<Rightarrow> word
      | None \<Rightarrow> [])"

definition parse_link :: "('w, 'e) driver \<Rightarrow> ('w, 'e) state \<Rightarrow> 'e \<Rightarrow> exn + Activity option" where
  "parse_link drv s link =
     and_then (href_or_empty drv s link) (\<lambda>href.
     and_then (stripped_text drv s link) (\<lambda>txt.
     if txt = [] \<or> length txt < 5 \<or> length txt > 200 then Inr None
     else
       let text_lower = lower txt;
           href_lower = lower href;
           is_reward = list_ex (\<lambda>ind. contains text_lower ind \<or> contains href_lower ind) reward_indicators
       in if is_reward \<and> href \<noteq> []
          then Inr (Some \<lparr>title = take 80 txt, points = extract_points txt, url = href, completed = False\<rparr>)
          else Inr None))"

definition detect_alternative :: "('w, 'e) driver \<Rightarrow> ('w, 'e) state \<Rightarrow> Activity list" where
  "detect_alternative drv s =
     (case query_selector_all drv s ''a[href]'' of
        Inl e \<Rightarrow> []
      | Inr links \<Rightarrow> collect (parse_link drv s) links)"

subsection \<open>Login check\<close>

definition user_selector :: string where
  "user_selector = ''#id_n, [class*='user-name'], [class*='mectrl_profilepic'], [class*='avatar'], #meControl''"

definition sign_in_selector :: string where
  "sign_in_selector = ''a[href*='login'], [class*='signIn'], [class*='SignIn'], #id_l, [id*='signin']''"

definition check_login_body :: "('w, 'e) driver \<Rightarrow> ('w, 'e) state \<Rightarrow> exn + bool" where
  "check_login_body drv s =
     and_then (query_selector drv s user_selector) (\<lambda>user_element.
     if user_element \<noteq> None then Inr True
     else
     and_then (page_content drv s) (\<lambda>html.
     if contains (lower html) ''rewards'' \<and> (contains (lower html) ''point'' \<or> contains (lower html) ''poin'')
     then Inr True
     else
     and_then (query_selector drv s sign_in_selector) (\<lambda>sign_in. Inr (sign_in = None))))"

definition check_login :: "('w, 'e) driver \<Rightarrow> ('w, 'e) state \<Rightarrow> bool" where
  "check_login drv s = (case check_login_body drv s of Inl e \<Rightarrow> True | Inr b \<Rightarrow> b)"

subsection \<open>The run\<close>

definition REWARDS_URL :: string where
  "REWARDS_URL = ''https://rewards.bing.com/''"

text \<open>
  \<^verbatim>\<open>_get_bot_data_dir\<close> reads the environment and takes no argument; the paths are
  joined by the platform's \<^verbatim>\<open>pathlib\<close>.
\<close>

definition get_bot_data_dir :: "('w, 'e) driver \<Rightarrow> 'w \<Rightarrow> string" where
  "get_bot_data_dir drv w =
     (let localappdata =
            (case getenv drv w ''LOCALAPPDATA'' of
               Some d \<Rightarrow> d
             | None \<Rightarrow> joinpath drv (joinpath drv (home_dir drv w) ''AppData'') ''Local'')
      in joinpath drv (joinpath drv localappdata ''BingRewardsBot'') ''User Data'')"

text \<open>
  Browser detection. \<^verbatim>\<open>browser_utils.scan_system()\<close> inspects the file system; its
  result, a dictionary from browser key to description, is read from the driver.
\<close>

fun pick_browser :: "(string \<times> browser_info) list \<Rightarrow> string list \<Rightarrow> string \<Rightarrow> string" where
  "pick_browser browsers [] browser_path = browser_path"
| "pick_browser browsers (preferred # rest) browser_path =
     (case map_of browsers preferred of
        Some b \<Rightarrow> executable b
      | None \<Rightarrow> pick_browser browsers rest browser_path)"

definition detect_browser :: "('w, 'e) driver \<Rightarrow> ('w, 'e) state \<Rightarrow> string \<Rightarrow> string" where
  "detect_browser drv s browser_path =
     (if browser_path \<noteq> [] then browser_path
      else case scan_system drv (world s) of
             Inl e \<Rightarrow> browser_path
           | Inr browsers \<Rightarrow>
               if browsers \<noteq> [] then pick_browser browsers [''edge'', ''chrome'', ''brave''] browser_path
               else browser_path)"

text \<open>The profile directory is looked at and created; the value is its path.\<close>

definition prepare_profile :: "('w, 'e) driver \<Rightarrow> ('w, 'e) state \<Rightarrow> (exn + string) \<times> ('w, 'e) state" where
  "prepare_profile drv s =
     (let bot_data_dir = get_bot_data_dir drv (world s)
      in case dir_exists drv (world s) bot_data_dir of
           Inl e \<Rightarrow> (Inl e, s)
         | Inr ex \<Rightarrow>
             (case (if ex then iterdir drv (world s) bot_data_dir else Inr []) of
                Inl e \<Rightarrow> (Inl e, s)
              | Inr entries \<Rightarrow>
                  (case perform (mkdir drv bot_data_dir) (Mkdir bot_data_dir) s of
                     (Some e, s1) \<Rightarrow> (Inl e, s1)
                   | (None, s1) \<Rightarrow> (Inr bot_data_dir, s1))))"

text \<open>
  Opening the dashboard and the login check, with one manual retry:
  \<open>Inr False\<close> is "still not logged in".
\<close>

definition login_gate :: "('w, 'e) driver \<Rightarrow> ('w, 'e) state \<Rightarrow> (exn + bool) \<times> ('w, 'e) state" where
  "login_gate drv s =
     (case page_goto drv REWARDS_URL 30000 s of
        (Some e, s1) \<Rightarrow> (Inl e, s1)
      | (None, s1) \<Rightarrow>
          let s2 = random_delay drv 30 50 s1
          in if check_login drv s2 then (Inr True, s2)
             else
               (case perform (wait_for_enter drv) WaitEnter s2 of
                  (Some e, s3) \<Rightarrow> (Inl e, s3)
                | (None, s3) \<Rightarrow>
                    (case page_goto drv REWARDS_URL 30000 s3 of
                       (Some e, s4) \<Rightarrow> (Inl e, s4)
                     | (None, s4) \<Rightarrow>
                         let s5 = random_delay drv 30 50 s4
                         in (Inr (check_login drv s5), s5))))"

text \<open>
  \<^verbatim>\<open>for act in activities\<close>, with the tally \<^verbatim>\<open>completed\<close> so far. The return to the
  dashboard is in a \<^verbatim>\<open>try ... except Exception: pass\<close>.
\<close>

definition back_to_dashboard :: "('w, 'e) driver \<Rightarrow> ('w, 'e) state \<Rightarrow> ('w, 'e) state" where
  "back_to_dashboard drv s =
     (case page_goto drv REWARDS_URL 30000 s of
        (None, s1) \<Rightarrow> random_delay drv 20 30 s1
      | (Some e, s1) \<Rightarrow> s1)"

fun activities_loop ::
  "('w, 'e) driver \<Rightarrow> Activity list \<Rightarrow> nat \<Rightarrow> ('w, 'e) state \<Rightarrow> nat \<times> ('w, 'e) state" where
  "activities_loop drv [] tally s = (tally, s)"
| "activities_loop drv (a # rest) tally s =
     (case complete_activity drv a s of
        (success, s1) \<Rightarrow>
          activities_loop drv rest (if success then tally + 1 else tally)
            (back_to_dashboard drv (random_delay drv 20 40 s1)))"

definition close_context :: "('w, 'e) driver \<Rightarrow> ('w, 'e) state \<Rightarrow> exn option \<times> ('w, 'e) state" where
  "close_context drv s = perform (context_close drv) CloseContext s"

text \<open>
  The \<^verbatim>\<open>try\<close> block of \<^verbatim>\<open>run_daily_activities\<close>. The value is the exception that
  left the block, if one did, and \<^verbatim>\<open>completed\<close> at that moment; the
  \<^verbatim>\<open>except Exception\<close> after it prints and does nothing else.
\<close>

definition run_try ::
  "('w, 'e) driver \<Rightarrow> string \<Rightarrow> bool \<Rightarrow> bool \<Rightarrow> ('w, 'e) state \<Rightarrow> (exn option \<times> nat) \<times> ('w, 'e) state" where
  "run_try drv browser_path headless dryrun s =
     (case prepare_profile drv s of
        (Inl e, s1) \<Rightarrow> ((Some e, 0), s1)
      | (Inr bot_data_dir, s1) \<Rightarrow>
     (case perform (launch_persistent_context drv bot_data_dir browser_path headless)
             (Launch bot_data_dir browser_path headless) s1 of
        (Some e, s2) \<Rightarrow> ((Some e, 0), s2)
      | (None, s2) \<Rightarrow>
     (case perform (new_page drv) NewPage s2 of
        (Some e, s3) \<Rightarrow> ((Some e, 0), s3)
      | (None, s3) \<Rightarrow>
     (case login_gate drv s3 of
        (Inl e, s4) \<Rightarrow> ((Some e, 0), s4)
      | (Inr False, s4) \<Rightarrow> (case close_context drv s4 of (r, s5) \<Rightarrow> ((r, 0), s5))
      | (Inr True, s4) \<Rightarrow>
     (case detect_activities drv s4 of
        (Inl e, s5) \<Rightarrow> ((Some e, 0), s5)
      | (Inr found, s5) \<Rightarrow>
          let activities = (if found = [] then detect_alternative drv s5 else found)
          in case (if activities \<noteq> [] \<and> \<not> dryrun then activities_loop drv activities 0 s5
                   else (0, s5)) of
               (tally, s6) \<Rightarrow>
                 (case close_context drv s6 of (r, s7) \<Rightarrow> ((r, tally), s7)))))))"

text \<open>
  The entry point. \<open>profile\<close> is a parameter, as in the source. Leaving the
  \<^verbatim>\<open>async with async_playwright()\<close> block stops the Playwright driver on every path.
\<close>

definition run_daily_activities ::
  "('w, 'e) driver \<Rightarrow> string \<Rightarrow> string \<Rightarrow> bool \<Rightarrow> bool \<Rightarrow> ('w, 'e) state \<Rightarrow> (exn + nat) \<times> ('w, 'e) state" where
  "run_daily_activities drv browser_path profile headless dryrun s =
     (let path = detect_browser drv s browser_path
      in if path = [] then (Inr 0, s)
         else
           (case perform (start_playwright drv) StartPlaywright s of
              (Some e, s1) \<Rightarrow> (Inl e, s1)
            | (None, s1) \<Rightarrow>
                (case run_try drv path headless dryrun s1 of
                   ((r, tally), s2) \<Rightarrow>
                     (Inr tally,
                      \<lparr>world = stop_playwright drv (world s2), trace = trace s2 @ [StopPlaywright]\<rparr>))))"

definition run :: "('w, 'e) driver \<Rightarrow> string \<Rightarrow> string \<Rightarrow> bool \<Rightarrow> bool \<Rightarrow> ('w, 'e) state \<Rightarrow> (exn + nat) \<times> ('w, 'e) state" where
  "run drv browser_path profile headless dryrun s =
     run_daily_activities drv browser_path profile headless dryrun s"

subsection \<open>Notions used in the statements\<close>

text \<open>The state in which \<^verbatim>\<open>detect_activity_type\<close> queries the page, after its two waits.\<close>

definition settled :: "('w, 'e) driver \<Rightarrow> ('w, 'e) state \<Rightarrow> ('w, 'e) state" where
  "settled drv s = random_delay drv 15 30 (wait_for_page_load drv 10000 s)"

definition activity_types :: "string list" where
  "activity_types = [''quiz'', ''poll'', ''trivia'', ''click_only'']"

text \<open>The number of clicks issued so far, failed ones included.\<close>

fun is_click :: "'e action \<Rightarrow> bool" where
  "is_click (Click el) = True"
| "is_click a = False"

definition clicks :: "'e action list \<Rightarrow> nat" where
  "clicks tr = length (filter is_click tr)"

text \<open>
  A per-activity error: the navigation or the classification raises, or the body of the
  handler that the activity is dispatched to raises.
\<close>

definition activity_raises :: "('w, 'e) driver \<Rightarrow> Activity \<Rightarrow> ('w, 'e) state \<Rightarrow> bool" where
  "activity_raises drv a s =
     (case open_and_classify drv a s of
        (Inl e, s1) \<Rightarrow> True
      | (Inr activity_type, s1) \<Rightarrow>
          (case fst (get_handler_body drv activity_type s1) of Inl e \<Rightarrow> True | Inr b \<Rightarrow> False))"


definition valid_activity :: "Activity \<Rightarrow> bool" where
  "valid_activity a = (\<not> completed a \<and> url a \<noteq> [] \<and> 3 \<le> length (title a))"

subsection \<open>Example drivers\<close>

text \<open>
  A world is a clock that every click advances. The page shown is a function of the
  clock, clicks and navigations raise as \<open>click_exn\<close> and \<open>goto_exn\<close> say, and every
  other action succeeds. Paths are POSIX paths without a trailing separator, which
  \<open>joinpath\<close> joins with \<open>/\<close>. Elements are numbers; the element reads answer for the one
  card used in the examples: element 1 is a card, element 2 its title, element 3 its link.
\<close>

definition blank_page :: "nat page" where
  "blank_page = \<lparr>matches = (\<lambda>sel. []), content = []\<rparr>"

definition example_driver ::
  "(nat \<Rightarrow> exn + nat page) \<Rightarrow> (nat \<Rightarrow> exn option) \<Rightarrow> (string \<Rightarrow> exn option) \<Rightarrow> (nat, nat) driver" where
  "example_driver view click_exn goto_exn =
     \<lparr>page_view = view,
      el_query = (\<lambda>w el sel.
         if el = 1 \<and> sel = card_title_selector then Inr (Some 2)
         else if el = 1 \<and> sel = ''a[href]'' then Inr (Some 3)
         else Inr None),
      inner_text = (\<lambda>w el. if el = 2 then Inr ''  Daily quiz +10 '' else Inr ''Take the daily quiz +10''),
      get_attribute = (\<lambda>w el attr. if el = 3 \<and> attr = ''href'' then Inr (Some ''/quiz/1'') else Inr None),
      random_index = (\<lambda>w n. w),
      el_click = (\<lambda>el w. (click_exn el, Suc w)),
      goto = (\<lambda>url timeout w. (goto_exn url, w)),
      wait_for_load_state = (\<lambda>timeout w. (None, w)),
      evaluate = (\<lambda>js w. (None, w)),
      sleep = (\<lambda>lo hi w. w),
      scan_system = (\<lambda>w. Inr []),
      getenv = (\<lambda>w key. None),
      home_dir = (\<lambda>w. ''/home/user''),
      joinpath = (\<lambda>a b. a @ ''/'' @ b),
      dir_exists = (\<lambda>w d. Inr False),
      iterdir = (\<lambda>w d. Inr []),
      mkdir = (\<lambda>d w. (None, w)),
      start_playwright = (\<lambda>w. (None, w)),
      stop_playwright = (\<lambda>w. w),
      launch_persistent_context = (\<lambda>d exe headless w. (None, w)),
      new_page = (\<lambda>w. (None, w)),
      context_close = (\<lambda>w. (None, w)),
      wait_for_enter = (\<lambda>w. (None, w))\<rparr>"

definition start_state :: "(nat, nat) state" where
  "start_state = \<lparr>world = 0, trace = []\<rparr>"

text \<open>A page that matches nothing, and clicks and navigations that succeed.\<close>

definition blank_driver :: "(nat, nat) driver" where
  "blank_driver = example_driver (\<lambda>w. Inr blank_page) (\<lambda>el. None) (\<lambda>u. None)"

text \<open>A page whose every access raises.\<close>

definition closed_driver :: "(nat, nat) driver" where
  "closed_driver =
     example_driver (\<lambda>w. Inl (PlaywrightError ''Target page has been closed'')) (\<lambda>el. None) (\<lambda>u. None)"

text \<open>A page on which every selector matches the elements 7 and 8, for ever.\<close>

definition options_page :: "nat page" where
  "options_page = \<lparr>matches = (\<lambda>sel. [7, 8]), content = []\<rparr>"

definition options_driver :: "(nat, nat) driver" where
  "options_driver = example_driver (\<lambda>w. Inr options_page) (\<lambda>el. None) (\<lambda>u. None)"

text \<open>
  A page that shows two options and no completion marker, for ever: the option selectors
  of the handlers match, the completion and start selectors do not.
\<close>

definition endless_page :: "nat page" where
  "endless_page =
     \<lparr>matches = (\<lambda>sel. if sel = quiz_option_selector \<or> sel = trivia_option_selector
                          \<or> sel = poll_option_selector then [7, 8] else []),
      content = []\<rparr>"

definition failing_click_driver :: "(nat, nat) driver" where
  "failing_click_driver =
     example_driver (\<lambda>w. Inr endless_page) (\<lambda>el. Some (PlaywrightError ''Element is not attached'')) (\<lambda>u. None)"

text \<open>A quiz page with a start button (element 5) whose click raises.\<close>

definition start_button_page :: "nat page" where
  "start_button_page = \<lparr>matches = (\<lambda>sel. if sel = quiz_start_selector then [5] else []), content = []\<rparr>"

definition failing_start_driver :: "(nat, nat) driver" where
  "failing_start_driver =
     example_driver (\<lambda>w. Inr start_button_page) (\<lambda>el. Some (PlaywrightError ''Element is not attached'')) (\<lambda>u. None)"

text \<open>A dashboard with one card (element 1) and one hyperlink (element 3).\<close>

definition card_page :: "nat page" where
  "card_page =
     \<lparr>matches = (\<lambda>sel. if sel = ''mee-card'' then [1] else if sel = ''a[href]'' then [3] else []),
      content = []\<rparr>"

definition card_driver :: "(nat, nat) driver" where
  "card_driver = example_driver (\<lambda>w. Inr card_page) (\<lambda>el. None) (\<lambda>u. None)"

text \<open>Navigation to one activity times out; the pages match nothing.\<close>

definition slow_activity_driver :: "(nat, nat) driver" where
  "slow_activity_driver =
     example_driver (\<lambda>w. Inr blank_page) (\<lambda>el. None)
       (\<lambda>u. if u = ''https://rewards.bing.com/slow'' then Some TimeoutError else None)"

definition example_activity :: "string \<Rightarrow> Activity" where
  "example_activity u = \<lparr>title = ''Daily task'', points = ''+10'', url = u, completed = False\<rparr>"


section \<open>Properties\<close>

subsection \<open>The classifier\<close>

lemma any_selector_page:
  "page_view drv (world s) = Inr p \<Longrightarrow>
   any_selector drv s sels = Inr (list_ex (\<lambda>sel. matches p sel \<noteq> []) sels)"
  by (induction sels) (auto simp: query_selector_def split: list.splits)

lemma any_selector_closed:
  "page_view drv (world s) = Inl e \<Longrightarrow> sels \<noteq> [] \<Longrightarrow> any_selector drv s sels = Inl e"
  by (cases sels) (auto simp: query_selector_def)

lemma detect_activity_type_page:
  assumes "page_view drv (world (settled drv s)) = Inr p"
  shows "detect_activity_type drv s =
    (Inr (if list_ex (\<lambda>sel. matches p sel \<noteq> []) quiz_selectors then ''quiz''
          else if list_ex (\<lambda>sel. matches p sel \<noteq> []) poll_selectors then ''poll''
          else if list_ex (\<lambda>sel. matches p sel \<noteq> []) trivia_selectors then ''trivia''
          else if list_ex (\<lambda>sel. matches p sel \<noteq> []) lightspeed_selectors then ''quiz''
          else ''click_only''), settled drv s)"
  using assms unfolding detect_activity_type_def settled_def Let_def
  by (simp add: any_selector_page)

lemma detect_activity_type_closed:
  assumes "page_view drv (world (settled drv s)) = Inl e"
  shows "detect_activity_type drv s = (Inl e, settled drv s)"
proof -
  have "quiz_selectors \<noteq> []" by (simp add: quiz_selectors_def)
  with assms have "any_selector drv (settled drv s) quiz_selectors = Inl e"
    by (rule any_selector_closed)
  then show ?thesis
    unfolding detect_activity_type_def Let_def settled_def by simp
qed

text \<open>
  C3: the classifier is total on DOM states. Whatever the page shows when the classifier
  queries it, the classifier returns a value, this value is exactly one of the four type
  names, and it is \<^verbatim>\<open>click_only\<close> when no selector of the four groups matches.
\<close>

theorem classifier_is_total:
  assumes "page_view drv (world (settled drv s)) = Inr p"
  shows "(\<exists>!t. t \<in> set activity_types \<and> fst (detect_activity_type drv s) = Inr t) \<and>
     ((\<forall>sel \<in> set (quiz_selectors @ poll_selectors @ trivia_selectors @ lightspeed_selectors).
         matches p sel = []) \<longrightarrow>
      fst (detect_activity_type drv s) = Inr ''click_only'')"
proof -
  have types: "\<exists>t. t \<in> set activity_types \<and> fst (detect_activity_type drv s) = Inr t"
    by (simp add: detect_activity_type_page [OF assms] activity_types_def)
  then have one: "\<exists>!t. t \<in> set activity_types \<and> fst (detect_activity_type drv s) = Inr t"
    by auto
  have fallback: "fst (detect_activity_type drv s) = Inr ''click_only''"
    if "\<forall>sel \<in> set (quiz_selectors @ poll_selectors @ trivia_selectors @ lightspeed_selectors).
           matches p sel = []"
  proof -
    from that have "\<not> list_ex (\<lambda>sel. matches p sel \<noteq> []) quiz_selectors"
      and "\<not> list_ex (\<lambda>sel. matches p sel \<noteq> []) poll_selectors"
      and "\<not> list_ex (\<lambda>sel. matches p sel \<noteq> []) trivia_selectors"
      and "\<not> list_ex (\<lambda>sel. matches p sel \<noteq> []) lightspeed_selectors"
      by (auto simp: list_ex_iff)
    then show ?thesis by (simp add: detect_activity_type_page [OF assms])
  qed
  from one fallback show ?thesis by blast
qed

text \<open>
  A page that matches nothing is classified \<^verbatim>\<open>click_only\<close>, a page on which every selector
  matches \<^verbatim>\<open>quiz\<close>.
\<close>

theorem classifier_is_total_witness:
  "page_view blank_driver (world (settled blank_driver start_state)) = Inr blank_page \<and>
   list_all (\<lambda>sel. matches blank_page sel = [])
     (quiz_selectors @ poll_selectors @ trivia_selectors @ lightspeed_selectors) \<and>
   ''click_only'' \<in> set activity_types \<and>
   fst (detect_activity_type blank_driver start_state) = Inr ''click_only'' \<and>
   page_view options_driver (world (settled options_driver start_state)) = Inr options_page \<and>
   ''quiz'' \<in> set activity_types \<and>
   fst (detect_activity_type options_driver start_state) = Inr ''quiz''"
proof -
  have view: "page_view blank_driver (world (settled blank_driver start_state)) = Inr blank_page"
    by (simp add: blank_driver_def example_driver_def)
  have none: "\<forall>sel \<in> set (quiz_selectors @ poll_selectors @ trivia_selectors @ lightspeed_selectors).
       matches blank_page sel = []"
    by (simp add: blank_page_def)
  from classifier_is_total [OF view] none
  have blank: "fst (detect_activity_type blank_driver start_state) = Inr ''click_only''"
    by blast
  have view2: "page_view options_driver (world (settled options_driver start_state)) = Inr options_page"
    by (simp add: options_driver_def example_driver_def)
  from classifier_is_total [OF view2]
  obtain t where t: "t \<in> set activity_types"
    "fst (detect_activity_type options_driver start_state) = Inr t"
    by blast
  have "list_ex (\<lambda>sel. matches options_page sel \<noteq> []) quiz_selectors"
    by (simp add: options_page_def quiz_selectors_def)
  then have quiz: "fst (detect_activity_type options_driver start_state) = Inr ''quiz''"
    by (simp add: detect_activity_type_page [OF view2])
  with view none blank view2 t show ?thesis
    unfolding list_all_iff by (simp add: activity_types_def)
qed

text \<open>
  C6: on every page on which a quiz marker and a trivia marker both match, the classifier
  returns \<^verbatim>\<open>quiz\<close>.
\<close>

theorem quiz_wins_over_trivia:
  assumes "page_view drv (world (settled drv s)) = Inr p"
    and "\<exists>sel \<in> set quiz_selectors. matches p sel \<noteq> []"
    and "\<exists>sel \<in> set trivia_selectors. matches p sel \<noteq> []"
  shows "fst (detect_activity_type drv s) = Inr ''quiz''"
proof -
  from assms(2) have "list_ex (\<lambda>sel. matches p sel \<noteq> []) quiz_selectors"
    by (simp add: list_ex_iff)
  then show ?thesis by (simp add: detect_activity_type_page [OF assms(1)])
qed

text \<open>A page on which every selector matches is classified as a quiz.\<close>

theorem quiz_wins_over_trivia_witness:
  "page_view options_driver (world (settled options_driver start_state)) = Inr options_page \<and>
   (\<exists>sel \<in> set quiz_selectors. matches options_page sel \<noteq> []) \<and>
   (\<exists>sel \<in> set trivia_selectors. matches options_page sel \<noteq> []) \<and>
   fst (detect_activity_type options_driver start_state) = Inr ''quiz''"
proof -
  have view: "page_view options_driver (world (settled options_driver start_state)) = Inr options_page"
    by (simp add: options_driver_def example_driver_def)
  have q: "\<exists>sel \<in> set quiz_selectors. matches options_page sel \<noteq> []"
    by (auto simp: options_page_def quiz_selectors_def)
  have t: "\<exists>sel \<in> set trivia_selectors. matches options_page sel \<noteq> []"
    by (auto simp: options_page_def trivia_selectors_def)
  from quiz_wins_over_trivia [OF view q t] view q t show ?thesis by simp
qed

subsection \<open>The handlers\<close>

declare quiz_loop.simps [simp del] trivia_loop.simps [simp del]

lemma trace_perform [simp]: "trace (snd (perform f a s)) = trace s @ [a]"
  by (simp add: perform_def split: prod.splits)

lemma trace_random_delay [simp]: "trace (random_delay drv a b s) = trace s @ [Sleep a b]"
  by (simp add: random_delay_def)

lemma clicks_append [simp]: "clicks (xs @ ys) = clicks xs + clicks ys"
  by (simp add: clicks_def)

lemma clicks_Nil [simp]: "clicks [] = 0"
  by (simp add: clicks_def)

lemma clicks_Cons [simp]: "clicks (a # tr) = (if is_click a then 1 else 0) + clicks tr"
  by (simp add: clicks_def)

lemma clicks_click [simp]: "clicks (trace (snd (click drv el s))) = Suc (clicks (trace s))"
  by (simp add: click_def)

lemma clicks_wait_for_page_load [simp]:
  "clicks (trace (wait_for_page_load drv t s)) = clicks (trace s)"
proof -
  obtain r s1 where p: "perform (wait_for_load_state drv t) (WaitLoad t) s = (r, s1)"
    by (cases "perform (wait_for_load_state drv t) (WaitLoad t) s")
  then have "trace s1 = trace s @ [WaitLoad t]"
    using trace_perform [of "wait_for_load_state drv t" "WaitLoad t" s] by simp
  with p show ?thesis
    by (cases r) (simp_all add: wait_for_page_load_def)
qed

lemma clicks_page_evaluate [simp]:
  "clicks (trace (snd (page_evaluate drv js s))) = clicks (trace s)"
  by (simp add: page_evaluate_def)

lemma snd_catch_false [simp]: "snd (catch_false r) = snd r"
  by (simp add: catch_false_def split: prod.splits sum.splits)

lemma quiz_loop_clicks:
  "clicks (trace (snd (quiz_loop drv q s))) \<le> clicks (trace s) + (20 - q)"
proof (induction drv q s rule: quiz_loop.induct)
  case (1 drv q s)
  show ?case
  proof (cases "q < 20")
    case False
    then show ?thesis by (simp add: quiz_loop.simps [of drv q s])
  next
    case True
    show ?thesis
    proof (cases "quiz_options drv s")
      case (Inl e)
      with True show ?thesis by (simp add: quiz_loop.simps [of drv q s])
    next
      case (Inr options)
      show ?thesis
      proof (cases "options = []")
        case True
        with Inr \<open>q < 20\<close> show ?thesis by (simp add: quiz_loop.simps [of drv q s])
      next
        case False
        define s2 where
          "s2 = random_delay drv 15 30 (snd (click drv (random_choice drv s options) s))"
        have s2: "clicks (trace s2) = Suc (clicks (trace s))"
          unfolding s2_def trace_random_delay clicks_append by simp
        show ?thesis
        proof (cases "query_selector drv s2 quiz_complete_selector")
          case (Inl e)
          with True Inr False s2 show ?thesis
            by (simp add: quiz_loop.simps [of drv q s] s2_def [symmetric] Let_def)
        next
          case found: (Inr r)
          show ?thesis
          proof (cases r)
            case None
            have "clicks (trace (snd (quiz_loop drv (Suc q) s2))) \<le> clicks (trace s2) + (20 - Suc q)"
              using "1.IH" [OF True Inr False refl refl s2_def] found None by simp
            with True Inr False s2 found None show ?thesis
              by (simp add: quiz_loop.simps [of drv q s] s2_def [symmetric] Let_def)
          next
            case (Some el)
            with True Inr False s2 found show ?thesis
              by (simp add: quiz_loop.simps [of drv q s] s2_def [symmetric] Let_def)
          qed
        qed
      qed
    qed
  qed
qed


lemma trivia_loop_clicks:
  "clicks (trace (snd (trivia_loop drv q s))) \<le> clicks (trace s) + (15 - q)"
proof (induction drv q s rule: trivia_loop.induct)
  case (1 drv q s)
  show ?case
  proof (cases "q < 15")
    case False
    then show ?thesis by (simp add: trivia_loop.simps [of drv q s])
  next
    case True
    show ?thesis
    proof (cases "query_selector_all drv s trivia_option_selector")
      case (Inl e)
      with True show ?thesis by (simp add: trivia_loop.simps [of drv q s])
    next
      case (Inr options)
      show ?thesis
      proof (cases "options = []")
        case True
        with Inr \<open>q < 15\<close> show ?thesis by (simp add: trivia_loop.simps [of drv q s])
      next
        case False
        define s2 where
          "s2 = random_delay drv 15 30 (snd (click drv (random_choice drv s options) s))"
        have s2: "clicks (trace s2) = Suc (clicks (trace s))"
          unfolding s2_def trace_random_delay clicks_append by simp
        show ?thesis
        proof (cases "query_selector drv s2 trivia_complete_selector")
          case (Inl e)
          with True Inr False s2 show ?thesis
            by (simp add: trivia_loop.simps [of drv q s] s2_def [symmetric] Let_def)
        next
          case found: (Inr r)
          show ?thesis
          proof (cases r)
            case None
            have "clicks (trace (snd (trivia_loop drv (Suc q) s2))) \<le> clicks (trace s2) + (15 - Suc q)"
              using "1.IH" [OF True Inr False refl refl s2_def] found None by simp
            with True Inr False s2 found None show ?thesis
              by (simp add: trivia_loop.simps [of drv q s] s2_def [symmetric] Let_def)
          next
            case (Some el)
            with True Inr False s2 found show ?thesis
              by (simp add: trivia_loop.simps [of drv q s] s2_def [symmetric] Let_def)
          qed
        qed
      qed
    qed
  qed
qed

lemma handle_poll_clicks:
  "clicks (trace (snd (handle_poll drv s))) \<le> clicks (trace s) + 1"
proof (cases "poll_options drv s")
  case (Inl e)
  then show ?thesis by (simp add: handle_poll_def handle_poll_body_def)
next
  case (Inr options)
  show ?thesis
  proof (cases "click drv (random_choice drv s options) s")
    case (Pair r s1)
    then have "clicks (trace s1) = Suc (clicks (trace s))"
      using clicks_click [of drv "random_choice drv s options" s] by simp
    with Inr Pair show ?thesis
      by (cases r) (simp_all add: handle_poll_def handle_poll_body_def)
  qed
qed

lemma handle_quiz_clicks:
  "clicks (trace (snd (handle_quiz drv s))) \<le>
     clicks (trace s)
     + (case query_selector drv s quiz_start_selector of Inr (Some start_btn) \<Rightarrow> 1 | _ \<Rightarrow> 0)
     + 20"
proof (cases "query_selector drv s quiz_start_selector")
  case (Inl e)
  then show ?thesis by (simp add: handle_quiz_def handle_quiz_body_def)
next
  case (Inr r)
  show ?thesis
  proof (cases r)
    case None
    with Inr quiz_loop_clicks [of drv 0 s] show ?thesis
      by (simp add: handle_quiz_def handle_quiz_body_def)
  next
    case (Some start_btn)
    show ?thesis
    proof (cases "click drv start_btn s")
      case (Pair r1 s1)
      then have s1: "clicks (trace s1) = Suc (clicks (trace s))"
        using clicks_click [of drv start_btn s] by simp
      show ?thesis
      proof (cases r1)
        case None
        from quiz_loop_clicks [of drv 0 "random_delay drv 20 30 s1"] s1
        have "clicks (trace (snd (quiz_loop drv 0 (random_delay drv 20 30 s1)))) \<le> clicks (trace s) + 1 + 20"
          by simp
        with Inr Some Pair None show ?thesis
          by (simp add: handle_quiz_def handle_quiz_body_def)
      next
        case (Some e)
        with Inr \<open>r = Some start_btn\<close> Pair s1 show ?thesis
          by (simp add: handle_quiz_def handle_quiz_body_def)
      qed
    qed
  qed
qed

text \<open>
  C5: the quiz loop issues at most 20 clicks, one per iteration, the trivia handler at
  most 15 and the poll handler at most 1. The quiz handler as a whole adds to the 20 of
  its loop the one click on the start button, when the page has one.
\<close>

theorem handler_iteration_bounds:
  "clicks (trace (snd (quiz_loop drv 0 s))) \<le> clicks (trace s) + 20 \<and>
   clicks (trace (snd (handle_quiz drv s))) \<le>
     clicks (trace s)
     + (case query_selector drv s quiz_start_selector of Inr (Some start_btn) \<Rightarrow> 1 | _ \<Rightarrow> 0)
     + 20 \<and>
   clicks (trace (snd (handle_trivia drv s))) \<le> clicks (trace s) + 15 \<and>
   clicks (trace (snd (handle_poll drv s))) \<le> clicks (trace s) + 1"
  using quiz_loop_clicks [of drv 0 s] trivia_loop_clicks [of drv 0 s]
    handle_poll_clicks [of drv s] handle_quiz_clicks [of drv s]
  by (simp add: handle_trivia_def handle_trivia_body_def)

text \<open>
  C1, as the code has it. In the quiz and the trivia handler, an iteration \<open>q\<close> that
  finds no option element ends the loop at once, nothing more is done to the page, and
  the handler returns \<open>True\<close>. The poll handler has no loop and returns \<open>False\<close>
  when it finds no option element.
\<close>

theorem no_options_ends_the_loop:
  "(quiz_options drv s = Inr [] \<longrightarrow> catch_false (quiz_loop drv q s) = (True, s)) \<and>
   (query_selector_all drv s trivia_option_selector = Inr [] \<longrightarrow>
      catch_false (trivia_loop drv q s) = (True, s)) \<and>
   (poll_options drv s = Inr [] \<longrightarrow> handle_poll drv s = (False, s))"
  by (simp add: quiz_loop.simps [of drv q s] trivia_loop.simps [of drv q s]
      catch_false_def handle_poll_def handle_poll_body_def)

lemma blank_queries:
  "query_selector_all blank_driver s sel = Inr []"
  "query_selector blank_driver s sel = Inr None"
  by (simp_all add: query_selector_all_def query_selector_def blank_driver_def
      example_driver_def blank_page_def)

text \<open>
  On a page that matches nothing, the quiz and trivia handlers succeed without an action
  and the poll handler fails.
\<close>

theorem no_options_ends_the_loop_witness:
  "quiz_options blank_driver start_state = Inr [] \<and>
   query_selector_all blank_driver start_state trivia_option_selector = Inr [] \<and>
   poll_options blank_driver start_state = Inr [] \<and>
   catch_false (quiz_loop blank_driver 3 start_state) = (True, start_state) \<and>
   catch_false (trivia_loop blank_driver 3 start_state) = (True, start_state) \<and>
   handle_poll blank_driver start_state = (False, start_state) \<and>
   handle_quiz blank_driver start_state = (True, start_state) \<and>
   handle_trivia blank_driver start_state = (True, start_state)"
proof -
  have q: "quiz_options blank_driver start_state = Inr []"
    by (simp add: quiz_options_def blank_queries)
  have t: "query_selector_all blank_driver start_state trivia_option_selector = Inr []"
    by (simp add: blank_queries)
  have p: "poll_options blank_driver start_state = Inr []"
    by (simp add: poll_options_def blank_queries)
  from no_options_ends_the_loop [of blank_driver start_state 3] q t p
  have loops: "catch_false (quiz_loop blank_driver 3 start_state) = (True, start_state) \<and>
   catch_false (trivia_loop blank_driver 3 start_state) = (True, start_state) \<and>
   handle_poll blank_driver start_state = (False, start_state)"
    by simp
  from no_options_ends_the_loop [of blank_driver start_state 0] q t
  have "handle_quiz blank_driver start_state = (True, start_state)"
    and "handle_trivia blank_driver start_state = (True, start_state)"
    by (simp_all add: handle_quiz_def handle_quiz_body_def handle_trivia_def
        handle_trivia_body_def blank_queries)
  with q t p loops show ?thesis by simp
qed

text \<open>
  C1 as stated fails for the poll handler: with no option element on the page it
  returns \<open>False\<close>.
\<close>

theorem poll_without_options_counterexample:
  "poll_options blank_driver start_state = Inr [] \<and>
   fst (handle_poll blank_driver start_state) = False"
  by (simp add: handle_poll_def handle_poll_body_def poll_options_def blank_queries catch_false_def)


lemma readable_query_selector_all:
  "\<forall>w. \<exists>p. page_view drv w = Inr p \<Longrightarrow> \<exists>els. query_selector_all drv s sel = Inr els"
proof -
  assume "\<forall>w. \<exists>p. page_view drv w = Inr p"
  then obtain p where "page_view drv (world s) = Inr p" by blast
  then show ?thesis by (simp add: query_selector_all_def)
qed

lemma readable_query_selector:
  "\<forall>w. \<exists>p. page_view drv w = Inr p \<Longrightarrow> \<exists>r. query_selector drv s sel = Inr r"
proof -
  assume "\<forall>w. \<exists>p. page_view drv w = Inr p"
  then obtain p where "page_view drv (world s) = Inr p" by blast
  then show ?thesis by (simp add: query_selector_def)
qed

lemma readable_quiz_options:
  assumes "\<forall>w. \<exists>p. page_view drv w = Inr p"
  shows "\<exists>els. quiz_options drv s = Inr els"
proof -
  from readable_query_selector_all [OF assms]
  obtain els where els: "query_selector_all drv s quiz_option_selector = Inr els" by blast
  from readable_query_selector_all [OF assms]
  obtain els' where "query_selector_all drv s quiz_generic_selector = Inr els'" by blast
  with els show ?thesis by (simp add: quiz_options_def)
qed

lemma quiz_loop_swallows_clicks:
  "\<forall>w. \<exists>p. page_view drv w = Inr p \<Longrightarrow> fst (quiz_loop drv q s) = Inr True"
proof (induction drv q s rule: quiz_loop.induct)
  case (1 drv q s)
  note readable = "1.prems"
  show ?case
  proof (cases "q < 20")
    case False
    then show ?thesis by (simp add: quiz_loop.simps [of drv q s])
  next
    case True
    from readable_quiz_options [OF readable]
    obtain options where opts: "quiz_options drv s = Inr options" by blast
    show ?thesis
    proof (cases "options = []")
      case True
      with opts \<open>q < 20\<close> show ?thesis by (simp add: quiz_loop.simps [of drv q s])
    next
      case False
      define s2 where
        "s2 = random_delay drv 15 30 (snd (click drv (random_choice drv s options) s))"
      from readable_query_selector [OF readable]
      obtain r where found: "query_selector drv s2 quiz_complete_selector = Inr r" by blast
      show ?thesis
      proof (cases r)
        case None
        have "fst (quiz_loop drv (Suc q) s2) = Inr True"
          using "1.IH" [OF True opts False refl refl s2_def] found None readable by simp
        with True opts False found None show ?thesis
          by (simp add: quiz_loop.simps [of drv q s] s2_def [symmetric] Let_def)
      next
        case (Some el)
        with True opts False found show ?thesis
          by (simp add: quiz_loop.simps [of drv q s] s2_def [symmetric] Let_def)
      qed
    qed
  qed
qed

lemma trivia_loop_swallows_clicks:
  "\<forall>w. \<exists>p. page_view drv w = Inr p \<Longrightarrow> fst (trivia_loop drv q s) = Inr True"
proof (induction drv q s rule: trivia_loop.induct)
  case (1 drv q s)
  note readable = "1.prems"
  show ?case
  proof (cases "q < 15")
    case False
    then show ?thesis by (simp add: trivia_loop.simps [of drv q s])
  next
    case True
    from readable_query_selector_all [OF readable]
    obtain options where opts: "query_selector_all drv s trivia_option_selector = Inr options"
      by blast
    show ?thesis
    proof (cases "options = []")
      case True
      with opts \<open>q < 15\<close> show ?thesis by (simp add: trivia_loop.simps [of drv q s])
    next
      case False
      define s2 where
        "s2 = random_delay drv 15 30 (snd (click drv (random_choice drv s options) s))"
      from readable_query_selector [OF readable]
      obtain r where found: "query_selector drv s2 trivia_complete_selector = Inr r" by blast
      show ?thesis
      proof (cases r)
        case None
        have "fst (trivia_loop drv (Suc q) s2) = Inr True"
          using "1.IH" [OF True opts False refl refl s2_def] found None readable by simp
        with True opts False found None show ?thesis
          by (simp add: trivia_loop.simps [of drv q s] s2_def [symmetric] Let_def)
      next
        case (Some el)
        with True opts False found show ?thesis
          by (simp add: trivia_loop.simps [of drv q s] s2_def [symmetric] Let_def)
      qed
    qed
  qed
qed

lemma catch_false_raised: "fst r = Inl e \<Longrightarrow> fst (catch_false r) = False"
  by (cases r) (simp add: catch_false_def)

lemma handle_poll_body_click_raises:
  assumes "poll_options drv s = Inr options" and "options \<noteq> []"
    and "fst (click drv (random_choice drv s options) s) = Some e"
  shows "fst (handle_poll_body drv s) = Inl e"
  using assms
  by (cases "click drv (random_choice drv s options) s") (simp add: handle_poll_body_def)

lemma quiz_loop_next_iteration:
  assumes "q < 20" and "quiz_options drv s = Inr options" and "options \<noteq> []"
    and "query_selector drv
           (random_delay drv 15 30 (snd (click drv (random_choice drv s options) s)))
           quiz_complete_selector = Inr None"
  shows "quiz_loop drv q s =
     quiz_loop drv (Suc q) (random_delay drv 15 30 (snd (click drv (random_choice drv s options) s)))"
  using assms by (simp add: quiz_loop.simps [of drv q s] Let_def)

lemma trivia_loop_next_iteration:
  assumes "q < 15" and "query_selector_all drv s trivia_option_selector = Inr options"
    and "options \<noteq> []"
    and "query_selector drv
           (random_delay drv 15 30 (snd (click drv (random_choice drv s options) s)))
           trivia_complete_selector = Inr None"
  shows "trivia_loop drv q s =
     trivia_loop drv (Suc q) (random_delay drv 15 30 (snd (click drv (random_choice drv s options) s)))"
  using assms by (simp add: trivia_loop.simps [of drv q s] Let_def)

lemma quiz_loop_runs_all_iterations:
  "\<forall>w. \<exists>p. page_view drv w = Inr p \<and> matches p quiz_option_selector \<noteq> []
            \<and> matches p quiz_complete_selector = [] \<Longrightarrow>
   clicks (trace (snd (quiz_loop drv q s))) = clicks (trace s) + (20 - q)"
proof (induction drv q s rule: quiz_loop.induct)
  case (1 drv q s)
  note page = "1.prems"
  show ?case
  proof (cases "q < 20")
    case False
    then show ?thesis by (simp add: quiz_loop.simps [of drv q s])
  next
    case True
    from page obtain p where p: "page_view drv (world s) = Inr p"
      "matches p quiz_option_selector \<noteq> []"
      by blast
    define options where "options = matches p quiz_option_selector"
    from p have opts: "quiz_options drv s = Inr options" and ne: "options \<noteq> []"
      by (simp_all add: quiz_options_def query_selector_all_def options_def)
    define s2 where
      "s2 = random_delay drv 15 30 (snd (click drv (random_choice drv s options) s))"
    from page obtain p2 where "page_view drv (world s2) = Inr p2"
      "matches p2 quiz_complete_selector = []"
      by blast
    then have found: "query_selector drv s2 quiz_complete_selector = Inr None"
      by (simp add: query_selector_def)
    have s2: "clicks (trace s2) = Suc (clicks (trace s))"
      unfolding s2_def trace_random_delay clicks_append by simp
    have "clicks (trace (snd (quiz_loop drv (Suc q) s2))) = clicks (trace s2) + (20 - Suc q)"
      using "1.IH" [OF True opts ne refl refl s2_def] found page by simp
    moreover have "quiz_loop drv q s = quiz_loop drv (Suc q) s2"
      unfolding s2_def
      by (rule quiz_loop_next_iteration [OF True opts ne found [unfolded s2_def]])
    ultimately show ?thesis using s2 True by simp
  qed
qed

lemma trivia_loop_runs_all_iterations:
  "\<forall>w. \<exists>p. page_view drv w = Inr p \<and> matches p trivia_option_selector \<noteq> []
            \<and> matches p trivia_complete_selector = [] \<Longrightarrow>
   clicks (trace (snd (trivia_loop drv q s))) = clicks (trace s) + (15 - q)"
proof (induction drv q s rule: trivia_loop.induct)
  case (1 drv q s)
  note page = "1.prems"
  show ?case
  proof (cases "q < 15")
    case False
    then show ?thesis by (simp add: trivia_loop.simps [of drv q s])
  next
    case True
    from page obtain p where p: "page_view drv (world s) = Inr p"
      "matches p trivia_option_selector \<noteq> []"
      by blast
    define options where "options = matches p trivia_option_selector"
    from p have opts: "query_selector_all drv s trivia_option_selector = Inr options"
      and ne: "options \<noteq> []"
      by (simp_all add: query_selector_all_def options_def)
    define s2 where
      "s2 = random_delay drv 15 30 (snd (click drv (random_choice drv s options) s))"
    from page obtain p2 where "page_view drv (world s2) = Inr p2"
      "matches p2 trivia_complete_selector = []"
      by blast
    then have found: "query_selector drv s2 trivia_complete_selector = Inr None"
      by (simp add: query_selector_def)
    have s2: "clicks (trace s2) = Suc (clicks (trace s))"
      unfolding s2_def trace_random_delay clicks_append by simp
    have "clicks (trace (snd (trivia_loop drv (Suc q) s2))) = clicks (trace s2) + (15 - Suc q)"
      using "1.IH" [OF True opts ne refl refl s2_def] found page by simp
    moreover have "trivia_loop drv q s = trivia_loop drv (Suc q) s2"
      unfolding s2_def
      by (rule trivia_loop_next_iteration [OF True opts ne found [unfolded s2_def]])
    ultimately show ?thesis using s2 True by simp
  qed
qed

text \<open>
  C4, as the code has it. In the quiz and the trivia loop the click is in a \<^verbatim>\<open>try\<close> of
  its own. An iteration whose click raised goes on as any other: when the completion
  marker is not there, the next iteration runs. On a page that keeps showing options and
  never a completion marker the loops run all their 20 and 15 iterations, whatever the
  clicks raise, and as long as the page can be read the loops return \<open>True\<close>. The poll
  handler clicks outside any inner \<^verbatim>\<open>try\<close>: an exception of its click leaves the body. An
  exception that leaves the body of a handler makes the handler return \<open>False\<close>.
\<close>

theorem click_errors_swallowed_in_loops:
  "((\<forall>w. \<exists>p. page_view drv w = Inr p) \<longrightarrow>
      fst (quiz_loop drv q s) = Inr True \<and> fst (trivia_loop drv q s) = Inr True \<and>
      fst (handle_trivia drv s)) \<and>
   (q < 20 \<and> quiz_options drv s = Inr quiz_opts \<and> quiz_opts \<noteq> [] \<and>
    fst (click drv (random_choice drv s quiz_opts) s) = Some e \<and>
    query_selector drv
      (random_delay drv 15 30 (snd (click drv (random_choice drv s quiz_opts) s)))
      quiz_complete_selector = Inr None \<longrightarrow>
      quiz_loop drv q s =
        quiz_loop drv (Suc q)
          (random_delay drv 15 30 (snd (click drv (random_choice drv s quiz_opts) s)))) \<and>
   (q < 15 \<and> query_selector_all drv s trivia_option_selector = Inr trivia_opts \<and>
    trivia_opts \<noteq> [] \<and>
    fst (click drv (random_choice drv s trivia_opts) s) = Some e' \<and>
    query_selector drv
      (random_delay drv 15 30 (snd (click drv (random_choice drv s trivia_opts) s)))
      trivia_complete_selector = Inr None \<longrightarrow>
      trivia_loop drv q s =
        trivia_loop drv (Suc q)
          (random_delay drv 15 30 (snd (click drv (random_choice drv s trivia_opts) s)))) \<and>
   ((\<forall>w. \<exists>p. page_view drv w = Inr p \<and> matches p quiz_option_selector \<noteq> []
              \<and> matches p quiz_complete_selector = []) \<longrightarrow>
      clicks (trace (snd (quiz_loop drv q s))) = clicks (trace s) + (20 - q)) \<and>
   ((\<forall>w. \<exists>p. page_view drv w = Inr p \<and> matches p trivia_option_selector \<noteq> []
              \<and> matches p trivia_complete_selector = []) \<longrightarrow>
      clicks (trace (snd (trivia_loop drv q s))) = clicks (trace s) + (15 - q)) \<and>
   (poll_options drv2 s2 = Inr options \<and> options \<noteq> [] \<and>
    fst (click drv2 (random_choice drv2 s2 options) s2) = Some e2 \<longrightarrow>
      fst (handle_poll_body drv2 s2) = Inl e2 \<and> \<not> fst (handle_poll drv2 s2)) \<and>
   (fst (handle_quiz_body drv3 s3) = Inl e3 \<longrightarrow> \<not> fst (handle_quiz drv3 s3)) \<and>
   (fst (handle_poll_body drv4 s4) = Inl e4 \<longrightarrow> \<not> fst (handle_poll drv4 s4)) \<and>
   (fst (handle_trivia_body drv5 s5) = Inl e5 \<longrightarrow> \<not> fst (handle_trivia drv5 s5))"
proof -
  have loops: "fst (quiz_loop drv q s) = Inr True \<and> fst (trivia_loop drv q s) = Inr True \<and>
      fst (handle_trivia drv s)" if readable: "\<forall>w. \<exists>p. page_view drv w = Inr p"
  proof -
    have "fst (trivia_loop drv 0 s) = Inr True"
      by (rule trivia_loop_swallows_clicks [OF readable])
    then have "fst (handle_trivia drv s)"
      by (cases "trivia_loop drv 0 s") (simp add: handle_trivia_def handle_trivia_body_def catch_false_def)
    with quiz_loop_swallows_clicks [OF readable] trivia_loop_swallows_clicks [OF readable]
    show ?thesis by simp
  qed
  have quiz_next: "quiz_loop drv q s =
        quiz_loop drv (Suc q)
          (random_delay drv 15 30 (snd (click drv (random_choice drv s quiz_opts) s)))"
    if "q < 20 \<and> quiz_options drv s = Inr quiz_opts \<and> quiz_opts \<noteq> [] \<and>
        fst (click drv (random_choice drv s quiz_opts) s) = Some e \<and>
        query_selector drv
          (random_delay drv 15 30 (snd (click drv (random_choice drv s quiz_opts) s)))
          quiz_complete_selector = Inr None"
    using that by (intro quiz_loop_next_iteration) simp_all
  have trivia_next: "trivia_loop drv q s =
        trivia_loop drv (Suc q)
          (random_delay drv 15 30 (snd (click drv (random_choice drv s trivia_opts) s)))"
    if "q < 15 \<and> query_selector_all drv s trivia_option_selector = Inr trivia_opts \<and>
        trivia_opts \<noteq> [] \<and>
        fst (click drv (random_choice drv s trivia_opts) s) = Some e' \<and>
        query_selector drv
          (random_delay drv 15 30 (snd (click drv (random_choice drv s trivia_opts) s)))
          trivia_complete_selector = Inr None"
    using that by (intro trivia_loop_next_iteration) simp_all
  have poll: "fst (handle_poll_body drv2 s2) = Inl e2 \<and> \<not> fst (handle_poll drv2 s2)"
    if "poll_options drv2 s2 = Inr options \<and> options \<noteq> [] \<and>
        fst (click drv2 (random_choice drv2 s2 options) s2) = Some e2"
  proof -
    from that have "fst (handle_poll_body drv2 s2) = Inl e2"
      by (simp add: handle_poll_body_click_raises)
    then show ?thesis by (simp add: handle_poll_def catch_false_raised)
  qed
  have bounds: "(fst (handle_quiz_body drv3 s3) = Inl e3 \<longrightarrow> \<not> fst (handle_quiz drv3 s3)) \<and>
   (fst (handle_poll_body drv4 s4) = Inl e4 \<longrightarrow> \<not> fst (handle_poll drv4 s4)) \<and>
   (fst (handle_trivia_body drv5 s5) = Inl e5 \<longrightarrow> \<not> fst (handle_trivia drv5 s5))"
    by (simp add: handle_quiz_def handle_poll_def handle_trivia_def catch_false_raised)
  from loops quiz_next trivia_next poll bounds
    quiz_loop_runs_all_iterations [of drv q s] trivia_loop_runs_all_iterations [of drv q s]
  show ?thesis by blast
qed

lemma endless_queries:
  "query_selector_all failing_click_driver s sel = Inr (matches endless_page sel)"
  "query_selector failing_click_driver s sel =
     Inr (case matches endless_page sel of [] \<Rightarrow> None | el # _ \<Rightarrow> Some el)"
  by (simp_all add: query_selector_all_def query_selector_def failing_click_driver_def
      example_driver_def)


lemma closed_queries:
  "query_selector_all closed_driver s sel = Inl (PlaywrightError ''Target page has been closed'')"
  "query_selector closed_driver s sel = Inl (PlaywrightError ''Target page has been closed'')"
  by (simp_all add: query_selector_all_def query_selector_def closed_driver_def example_driver_def)

lemma start_button_queries:
  "query_selector failing_start_driver s quiz_start_selector = Inr (Some 5)"
  by (simp add: query_selector_def failing_start_driver_def example_driver_def
      start_button_page_def)

lemma failing_click:
  "click failing_click_driver el start_state =
     (Some (PlaywrightError ''Element is not attached''), \<lparr>world = 1, trace = [Click el]\<rparr>)"
  "click failing_start_driver el start_state =
     (Some (PlaywrightError ''Element is not attached''), \<lparr>world = 1, trace = [Click el]\<rparr>)"
  by (simp_all add: click_def perform_def failing_click_driver_def failing_start_driver_def
      example_driver_def start_state_def)

lemma endless_poll_options: "poll_options failing_click_driver start_state = Inr [7, 8]"
  by (simp add: poll_options_def endless_queries endless_page_def)

lemma failing_clicks_all_tried:
  "clicks (trace (snd (handle_quiz failing_click_driver start_state))) = 20"
  "clicks (trace (snd (handle_trivia failing_click_driver start_state))) = 15"
  by code_simp+

lemma failing_click_pages:
  "query_selector_all failing_click_driver s quiz_option_selector = Inr [7, 8]"
  "query_selector_all failing_click_driver s trivia_option_selector = Inr [7, 8]"
  "query_selector failing_click_driver s quiz_complete_selector = Inr None"
  "query_selector failing_click_driver s trivia_complete_selector = Inr None"
  by (simp_all add: endless_queries endless_page_def quiz_option_selector_def
      trivia_option_selector_def poll_option_selector_def quiz_complete_selector_def
      trivia_complete_selector_def)

lemma failing_click_endless:
  "\<forall>w. \<exists>p. page_view failing_click_driver w = Inr p \<and> matches p quiz_option_selector \<noteq> []
          \<and> matches p quiz_complete_selector = []"
  "\<forall>w. \<exists>p. page_view failing_click_driver w = Inr p \<and> matches p trivia_option_selector \<noteq> []
          \<and> matches p trivia_complete_selector = []"
  by (simp_all add: failing_click_driver_def example_driver_def endless_page_def
      quiz_option_selector_def trivia_option_selector_def poll_option_selector_def
      quiz_complete_selector_def trivia_complete_selector_def)

text \<open>
  Every click raises: after the failed click of iteration 0 the loops are at iteration 1,
  they run all their 20 and 15 iterations and succeed, and the poll handler fails; a
  start button whose click raises makes the quiz handler fail, a closed page the trivia
  handler.
\<close>

theorem click_errors_swallowed_in_loops_witness:
  "(\<forall>w. \<exists>p. page_view failing_click_driver w = Inr p) \<and>
   fst (quiz_loop failing_click_driver 0 start_state) = Inr True \<and>
   fst (trivia_loop failing_click_driver 0 start_state) = Inr True \<and>
   fst (handle_trivia failing_click_driver start_state) \<and>
   quiz_options failing_click_driver start_state = Inr [7, 8] \<and>
   query_selector_all failing_click_driver start_state trivia_option_selector = Inr [7, 8] \<and>
   fst (click failing_click_driver (random_choice failing_click_driver start_state [7, 8]) start_state)
     = Some (PlaywrightError ''Element is not attached'') \<and>
   quiz_loop failing_click_driver 0 start_state =
     quiz_loop failing_click_driver (Suc 0)
       (random_delay failing_click_driver 15 30
         (snd (click failing_click_driver
                (random_choice failing_click_driver start_state [7, 8]) start_state))) \<and>
   trivia_loop failing_click_driver 0 start_state =
     trivia_loop failing_click_driver (Suc 0)
       (random_delay failing_click_driver 15 30
         (snd (click failing_click_driver
                (random_choice failing_click_driver start_state [7, 8]) start_state))) \<and>
   clicks (trace (snd (quiz_loop failing_click_driver 0 start_state))) = 20 \<and>
   clicks (trace (snd (trivia_loop failing_click_driver 0 start_state))) = 15 \<and>
   clicks (trace (snd (handle_quiz failing_click_driver start_state))) = 20 \<and>
   clicks (trace (snd (handle_trivia failing_click_driver start_state))) = 15 \<and>
   poll_options failing_click_driver start_state = Inr [7, 8] \<and>
   fst (handle_poll_body failing_click_driver start_state)
     = Inl (PlaywrightError ''Element is not attached'') \<and>
   \<not> fst (handle_poll failing_click_driver start_state) \<and>
   fst (handle_quiz_body failing_start_driver start_state)
     = Inl (PlaywrightError ''Element is not attached'') \<and>
   \<not> fst (handle_quiz failing_start_driver start_state) \<and>
   fst (handle_trivia_body closed_driver start_state)
     = Inl (PlaywrightError ''Target page has been closed'') \<and>
   \<not> fst (handle_trivia closed_driver start_state)"
proof -
  have readable: "\<forall>w. \<exists>p. page_view failing_click_driver w = Inr p"
    by (simp add: failing_click_driver_def example_driver_def)
  have quiz_opts: "quiz_options failing_click_driver start_state = Inr [7, 8]"
    by (simp add: quiz_options_def failing_click_pages)
  have trivia_opts:
    "query_selector_all failing_click_driver start_state trivia_option_selector = Inr [7, 8]"
    by (simp add: failing_click_pages)
  have clk: "fst (click failing_click_driver (random_choice failing_click_driver start_state [7, 8]) start_state)
     = Some (PlaywrightError ''Element is not attached'')"
    by (simp add: failing_click)
  have quiz_body: "fst (handle_quiz_body failing_start_driver start_state)
     = Inl (PlaywrightError ''Element is not attached'')"
    by (simp add: handle_quiz_body_def start_button_queries failing_click)
  have trivia_body: "fst (handle_trivia_body closed_driver start_state)
     = Inl (PlaywrightError ''Target page has been closed'')"
    by (simp add: handle_trivia_body_def trivia_loop.simps [of _ 0] closed_queries)
  have poll_body: "fst (handle_poll_body failing_click_driver start_state)
     = Inl (PlaywrightError ''Element is not attached'')"
    by (simp add: handle_poll_body_def endless_poll_options failing_click)
  have start: "clicks (trace start_state) = 0"
    by (simp add: start_state_def)
  note inst = click_errors_swallowed_in_loops
    [where drv = failing_click_driver and q = 0 and s = start_state
       and quiz_opts = "[7, 8]" and e = "PlaywrightError ''Element is not attached''"
       and trivia_opts = "[7, 8]" and e' = "PlaywrightError ''Element is not attached''"
       and ?drv2.0 = failing_click_driver and ?s2.0 = start_state and options = "[7, 8]"
       and ?e2.0 = "PlaywrightError ''Element is not attached''"
       and ?drv3.0 = failing_start_driver and ?s3.0 = start_state
       and ?e3.0 = "PlaywrightError ''Element is not attached''"
       and ?drv4.0 = failing_click_driver and ?s4.0 = start_state
       and ?e4.0 = "PlaywrightError ''Element is not attached''"
       and ?drv5.0 = closed_driver and ?s5.0 = start_state
       and ?e5.0 = "PlaywrightError ''Target page has been closed''"]
  from inst readable
  have loops: "fst (quiz_loop failing_click_driver 0 start_state) = Inr True"
    "fst (trivia_loop failing_click_driver 0 start_state) = Inr True"
    "fst (handle_trivia failing_click_driver start_state)"
    by blast+
  from inst quiz_opts clk failing_click_pages(3)
  have quiz_next: "quiz_loop failing_click_driver 0 start_state =
     quiz_loop failing_click_driver (Suc 0)
       (random_delay failing_click_driver 15 30
         (snd (click failing_click_driver
                (random_choice failing_click_driver start_state [7, 8]) start_state)))"
    by simp
  from inst trivia_opts clk failing_click_pages(4)
  have trivia_next: "trivia_loop failing_click_driver 0 start_state =
     trivia_loop failing_click_driver (Suc 0)
       (random_delay failing_click_driver 15 30
         (snd (click failing_click_driver
                (random_choice failing_click_driver start_state [7, 8]) start_state)))"
    by simp
  from inst failing_click_endless start
  have counts: "clicks (trace (snd (quiz_loop failing_click_driver 0 start_state))) = 20"
    "clicks (trace (snd (trivia_loop failing_click_driver 0 start_state))) = 15"
    by simp_all
  from inst endless_poll_options clk poll_body
  have poll_fails: "\<not> fst (handle_poll failing_click_driver start_state)"
    by blast
  from inst quiz_body have quiz_fails: "\<not> fst (handle_quiz failing_start_driver start_state)"
    by blast
  from inst trivia_body have trivia_fails: "\<not> fst (handle_trivia closed_driver start_state)"
    by blast
  from readable loops quiz_opts trivia_opts clk quiz_next trivia_next counts
    failing_clicks_all_tried endless_poll_options poll_body poll_fails quiz_body quiz_fails
    trivia_body trivia_fails
  show ?thesis by blast
qed

text \<open>
  C4 as stated fails for the poll handler: the exception of its one click is not
  swallowed, and the handler returns \<open>False\<close>.
\<close>

theorem poll_click_error_counterexample:
  "fst (handle_poll_body failing_click_driver start_state)
     = Inl (PlaywrightError ''Element is not attached'') \<and>
   fst (handle_poll failing_click_driver start_state) = False"
  by (simp add: handle_poll_def handle_poll_body_def endless_poll_options failing_click
      catch_false_def)

subsection \<open>Completing the activities\<close>

lemma get_handler_catch: "get_handler drv t s = catch_false (get_handler_body drv t s)"
  by (simp add: get_handler_def get_handler_body_def handlers_def handler_bodies_def
      handle_quiz_def handle_poll_def handle_trivia_def handle_click_only_def)

lemma activity_raises_fails:
  assumes "activity_raises drv a s"
  shows "fst (complete_activity drv a s) = False"
proof (cases "open_and_classify drv a s")
  case (Pair r s1)
  show ?thesis
  proof (cases r)
    case (Inl e)
    with Pair show ?thesis
      by (simp add: complete_activity_def complete_activity_body_def catch_false_def)
  next
    case (Inr t)
    with Pair assms obtain e where "fst (get_handler_body drv t s1) = Inl e"
      by (auto simp: activity_raises_def split: sum.splits)
    then have "fst (get_handler drv t s1) = False"
      by (simp add: get_handler_catch catch_false_raised)
    with Pair Inr show ?thesis
      by (cases "get_handler drv t s1")
        (simp add: complete_activity_def complete_activity_body_def catch_false_def)
  qed
qed

lemma navigation_error_raises:
  assumes "fst (page_goto drv (full_url a) 30000 s) \<noteq> None"
  shows "activity_raises drv a s"
  using assms
  by (cases "page_goto drv (full_url a) 30000 s")
    (auto simp: activity_raises_def open_and_classify_def)

lemma activities_loop_append:
  "activities_loop drv (xs @ ys) tally s =
     (case activities_loop drv xs tally s of (t1, s1) \<Rightarrow> activities_loop drv ys t1 s1)"
  by (induction xs arbitrary: tally s) (simp_all split: prod.splits)

lemma activities_loop_bound:
  "fst (activities_loop drv xs tally s) \<le> tally + length xs"
proof (induction xs arbitrary: tally s)
  case Nil
  show ?case by simp
next
  case (Cons a xs)
  obtain ok s1 where c: "complete_activity drv a s = (ok, s1)"
    by (cases "complete_activity drv a s")
  from Cons.IH [of "if ok then tally + 1 else tally" "back_to_dashboard drv (random_delay drv 20 40 s1)"]
  show ?case by (cases ok) (simp_all add: c)
qed

text \<open>
  C7: when the loop reaches an activity \<open>a\<close> whose navigation raises (the 30 second
  timeout included) or whose classification or handler body raises, \<open>a\<close> is reported
  as not completed, the loop goes on with the activities after it from the same tally, and
  the final tally is at most the number of the other activities. The loop itself has no
  way to raise.
\<close>

theorem failed_activity_is_passed_over:
  assumes "activities_loop drv before tally s = (t1, s1)"
    and "fst (page_goto drv (full_url a) 30000 s1) \<noteq> None \<or> activity_raises drv a s1"
  shows "fst (complete_activity drv a s1) = False \<and>
     activities_loop drv (before @ a # rest) tally s =
       activities_loop drv rest t1
         (back_to_dashboard drv (random_delay drv 20 40 (snd (complete_activity drv a s1)))) \<and>
     fst (activities_loop drv (before @ a # rest) tally s) \<le> tally + length before + length rest"
proof -
  from assms(2) have raises: "activity_raises drv a s1"
    using navigation_error_raises by blast
  then have failed: "fst (complete_activity drv a s1) = False"
    by (rule activity_raises_fails)
  then have step: "activities_loop drv (before @ a # rest) tally s =
       activities_loop drv rest t1
         (back_to_dashboard drv (random_delay drv 20 40 (snd (complete_activity drv a s1))))"
    using assms(1)
    by (cases "complete_activity drv a s1") (simp add: activities_loop_append)
  from activities_loop_bound [of drv before tally s] assms(1) have "t1 \<le> tally + length before"
    by simp
  moreover have "fst (activities_loop drv (before @ a # rest) tally s) \<le> t1 + length rest"
    unfolding step by (rule activities_loop_bound)
  ultimately
  have "fst (activities_loop drv (before @ a # rest) tally s) \<le> tally + length before + length rest"
    by linarith
  with failed step show ?thesis by simp
qed


lemma slow_goto:
  "page_goto slow_activity_driver u t s =
     (if u = ''https://rewards.bing.com/slow'' then Some TimeoutError else None,
      \<lparr>world = world s, trace = trace s @ [Goto u]\<rparr>)"
  by (simp add: page_goto_def perform_def slow_activity_driver_def example_driver_def)

lemma slow_page: "page_view slow_activity_driver w = Inr blank_page"
  by (simp add: slow_activity_driver_def example_driver_def)

lemma slow_evaluate:
  "fst (page_evaluate slow_activity_driver js s) = None"
  by (simp add: page_evaluate_def perform_def slow_activity_driver_def example_driver_def)

lemma blank_page_no_match: "list_ex (\<lambda>sel. matches blank_page sel \<noteq> []) sels = False"
  by (simp add: blank_page_def list_ex_iff)

lemma example_full_url:
  "full_url (example_activity ''/a'') = ''https://rewards.bing.com/a''"
  "full_url (example_activity ''/slow'') = ''https://rewards.bing.com/slow''"
  "full_url (example_activity ''/b'') = ''https://rewards.bing.com/b''"
  by (simp_all add: full_url_def example_activity_def)

lemma slow_driver_completes:
  assumes "full_url a \<noteq> ''https://rewards.bing.com/slow''"
  shows "fst (complete_activity slow_activity_driver a s) = True"
proof -
  obtain s1 where nav: "page_goto slow_activity_driver (full_url a) 30000 s = (None, s1)"
    using assms by (simp add: slow_goto)
  have cls: "detect_activity_type slow_activity_driver (random_delay slow_activity_driver 20 40 s1) =
      (Inr ''click_only'', settled slow_activity_driver (random_delay slow_activity_driver 20 40 s1))"
    by (simp add: detect_activity_type_page [OF slow_page] blank_page_no_match)
  have h: "get_handler slow_activity_driver ''click_only'' = handle_click_only slow_activity_driver"
    by (simp add: get_handler_def handlers_def)
  have click_only: "fst (handle_click_only slow_activity_driver s') = True" for s'
  proof -
    obtain r s3 where ev: "page_evaluate slow_activity_driver ''window.scrollBy(0, 300)''
         (random_delay slow_activity_driver 30 50 (wait_for_page_load slow_activity_driver 10000 s')) = (r, s3)"
      by (cases "page_evaluate slow_activity_driver ''window.scrollBy(0, 300)''
         (random_delay slow_activity_driver 30 50 (wait_for_page_load slow_activity_driver 10000 s'))")
    with slow_evaluate [of "''window.scrollBy(0, 300)''"
        "random_delay slow_activity_driver 30 50 (wait_for_page_load slow_activity_driver 10000 s')"]
    have "r = None" by simp
    with ev show ?thesis
      by (simp add: handle_click_only_def handle_click_only_body_def catch_false_def Let_def)
  qed
  define s2 where "s2 = settled slow_activity_driver (random_delay slow_activity_driver 20 40 s1)"
  obtain ok s4 where hc: "handle_click_only slow_activity_driver s2 = (ok, s4)"
    by (cases "handle_click_only slow_activity_driver s2")
  with click_only [of s2] have "ok" by simp
  with nav cls h hc show ?thesis
    by (simp add: complete_activity_def complete_activity_body_def open_and_classify_def
        catch_false_def s2_def)
qed

text \<open>
  Three activities, the second of which times out: the first and the third are completed
  and counted.
\<close>

theorem failed_activity_is_passed_over_witness:
  "fst (page_goto slow_activity_driver (full_url (example_activity ''/slow'')) 30000
         (snd (activities_loop slow_activity_driver [example_activity ''/a''] 0 start_state)))
     = Some TimeoutError \<and>
   fst (activities_loop slow_activity_driver [example_activity ''/a''] 0 start_state) = 1 \<and>
   fst (complete_activity slow_activity_driver (example_activity ''/slow'')
         (snd (activities_loop slow_activity_driver [example_activity ''/a''] 0 start_state))) = False \<and>
   fst (activities_loop slow_activity_driver
         [example_activity ''/a'', example_activity ''/slow'', example_activity ''/b''] 0 start_state) = 2"
proof -
  define s1 where "s1 = snd (activities_loop slow_activity_driver [example_activity ''/a''] 0 start_state)"
  have first: "fst (activities_loop slow_activity_driver [example_activity ''/a''] 0 start_state) = 1"
    using slow_driver_completes [of "example_activity ''/a''" start_state]
    by (cases "complete_activity slow_activity_driver (example_activity ''/a'') start_state")
      (simp add: example_full_url)
  then have before: "activities_loop slow_activity_driver [example_activity ''/a''] 0 start_state = (1, s1)"
    unfolding s1_def by (simp add: prod_eq_iff)
  have nav: "fst (page_goto slow_activity_driver (full_url (example_activity ''/slow'')) 30000 s1)
      = Some TimeoutError"
    by (simp add: slow_goto example_full_url)
  then have hyp: "fst (page_goto slow_activity_driver (full_url (example_activity ''/slow'')) 30000 s1) \<noteq> None
      \<or> activity_raises slow_activity_driver (example_activity ''/slow'') s1"
    by simp
  note passed = failed_activity_is_passed_over [OF before hyp, of "[example_activity ''/b'']"]
  define s2 where "s2 = back_to_dashboard slow_activity_driver
           (random_delay slow_activity_driver 20 40
             (snd (complete_activity slow_activity_driver (example_activity ''/slow'') s1)))"
  have last: "fst (activities_loop slow_activity_driver [example_activity ''/b''] 1 s2) = 2"
    using slow_driver_completes [of "example_activity ''/b''" s2]
    by (cases "complete_activity slow_activity_driver (example_activity ''/b'') s2")
      (simp add: example_full_url)
  from passed last have "fst (activities_loop slow_activity_driver
         [example_activity ''/a'', example_activity ''/slow'', example_activity ''/b''] 0 start_state) = 2"
    by (simp add: s2_def)
  with passed nav first show ?thesis by (simp add: s1_def)
qed

subsection \<open>Detection\<close>

lemma and_then_Inr: "and_then m f = Inr y \<longleftrightarrow> (\<exists>x. m = Inr x \<and> f x = Inr y)"
  by (cases m) (simp_all add: and_then_def)

lemma parse_card_valid:
  assumes "parse_card drv s card_el = Inr (Some a)"
  shows "valid_activity a"
  using assms
  by (auto simp: parse_card_def and_then_Inr Let_def valid_activity_def split: if_splits)

lemma parse_link_valid:
  assumes "parse_link drv s link = Inr (Some a)"
  shows "valid_activity a"
  using assms
  by (auto simp: parse_link_def and_then_Inr Let_def valid_activity_def split: if_splits)

lemma collect_all:
  assumes "\<And>x a. parse x = Inr (Some a) \<Longrightarrow> P a"
  shows "list_all P (collect parse xs)"
proof (induction xs)
  case Nil
  show ?case by simp
next
  case (Cons x xs)
  show ?case
  proof (cases "parse x")
    case (Inl e)
    with Cons show ?thesis by simp
  next
    case (Inr r)
    with Cons assms [of x] show ?thesis by (cases r) simp_all
  qed
qed

lemma detect_activities_valid:
  assumes "fst (detect_activities drv s) = Inr found"
  shows "list_all valid_activity found"
proof -
  from assms obtain s2 cards where "found = collect (parse_card drv s2) cards"
    unfolding detect_activities_def Let_def
    by (auto split: sum.splits if_splits)
  moreover have "list_all valid_activity (collect (parse_card drv s2) cards)"
    by (rule collect_all) (rule parse_card_valid)
  ultimately show ?thesis by simp
qed

lemma detect_alternative_valid: "list_all valid_activity (detect_alternative drv s)"
proof (cases "query_selector_all drv s ''a[href]''")
  case (Inl e)
  then show ?thesis by (simp add: detect_alternative_def)
next
  case (Inr links)
  moreover have "list_all valid_activity (collect (parse_link drv s) links)"
    by (rule collect_all) (rule parse_link_valid)
  ultimately show ?thesis by (simp add: detect_alternative_def)
qed

text \<open>
  C2: every activity returned by \<^verbatim>\<open>detect_activities\<close> or by \<^verbatim>\<open>_detect_alternative\<close>
  is not completed, has a non-empty URL and a title of at least 3 characters.
\<close>

theorem detected_activities_pending_with_url_and_title:
  "(fst (detect_activities drv s) = Inr found \<longrightarrow>
      (\<forall>a \<in> set found. \<not> completed a \<and> url a \<noteq> [] \<and> 3 \<le> length (title a))) \<and>
   (\<forall>a \<in> set (detect_alternative drv s). \<not> completed a \<and> url a \<noteq> [] \<and> 3 \<le> length (title a))"
  using detect_activities_valid [of drv s found] detect_alternative_valid [of drv s]
  by (auto simp: list_all_iff valid_activity_def)

lemma card_detection:
  "fst (detect_activities card_driver start_state) =
     Inr [\<lparr>title = ''Daily quiz +10'', points = [], url = ''/quiz/1'', completed = False\<rparr>]"
  by code_simp

lemma link_detection:
  "detect_alternative card_driver start_state =
     [\<lparr>title = ''Take the daily quiz +10'', points = ''+10'', url = ''/quiz/1'', completed = False\<rparr>]"
  by code_simp

text \<open>
  A dashboard with one card and one link: each detector returns one activity.
\<close>

theorem detected_activities_pending_with_url_and_title_witness:
  "fst (detect_activities card_driver start_state) =
     Inr [\<lparr>title = ''Daily quiz +10'', points = [], url = ''/quiz/1'', completed = False\<rparr>] \<and>
   list_all (\<lambda>a. \<not> completed a \<and> url a \<noteq> [] \<and> 3 \<le> length (title a))
     [\<lparr>title = ''Daily quiz +10'', points = [], url = ''/quiz/1'', completed = False\<rparr>] \<and>
   detect_alternative card_driver start_state =
     [\<lparr>title = ''Take the daily quiz +10'', points = ''+10'', url = ''/quiz/1'', completed = False\<rparr>] \<and>
   list_all (\<lambda>a. \<not> completed a \<and> url a \<noteq> [] \<and> 3 \<le> length (title a))
     (detect_alternative card_driver start_state)"
  using detected_activities_pending_with_url_and_title
    [of card_driver start_state
      "[\<lparr>title = ''Daily quiz +10'', points = [], url = ''/quiz/1'', completed = False\<rparr>]"]
    card_detection link_detection
  unfolding list_all_iff by simp

subsection \<open>The login check\<close>

text \<open>
  C8: when the page cannot be read, so that the first DOM access of the login check
  raises, the check answers \<open>True\<close>.
\<close>

theorem login_gate_fails_open:
  "page_view drv (world s) = Inl e \<Longrightarrow> check_login_body drv s = Inl e \<and> check_login drv s"
  by (simp add: check_login_def check_login_body_def and_then_def query_selector_def)

text \<open>The login check on a closed page.\<close>

theorem login_gate_fails_open_witness:
  "page_view closed_driver (world start_state) = Inl (PlaywrightError ''Target page has been closed'') \<and>
   check_login closed_driver start_state"
proof -
  have view: "page_view closed_driver (world start_state) =
      Inl (PlaywrightError ''Target page has been closed'')"
    by (simp add: closed_driver_def example_driver_def)
  from login_gate_fails_open [OF view] view show ?thesis by simp
qed

subsection \<open>The entry point\<close>

text \<open>
  C10: two runs that differ in the \<^verbatim>\<open>profile\<close> argument only perform the same actions,
  end in the same world and return the same count. The profile directory comes from
  \<open>get_bot_data_dir\<close>, which has no such argument.
\<close>

theorem profile_has_no_effect:
  "run_daily_activities drv browser_path profile1 headless dryrun s =
   run_daily_activities drv browser_path profile2 headless dryrun s \<and>
   run drv browser_path profile1 headless dryrun s = run drv browser_path profile2 headless dryrun s"
  by (simp add: run_def run_daily_activities_def)













end
